theory Spec2Isabelle
  imports Main "HOL-Library.Word"
begin

section \<open>Python values, exceptions and string formatting\<close>

text \<open>
  The entries of the shared \<open>stats\<close> dictionary are Python objects: the four counters are
  integers, and \<open>report\<close> also stores the encoding name, a string, under the key
  \<open>encoding\<close>. Exceptions raised by the operations used in \<open>nose_xunitmp.py\<close> are values of
  type \<open>error\<close>; a computation that may raise returns \<open>error + 'a\<close>.
\<close>

datatype pyval = PInt int | PStr string

datatype error =
    KeyError string
  | TypeError
  | AttributeError string
  | UnicodeEncodeError
  | LookupError string
  | IOError string
  | ValueError string

type_synonym pydict = "string \<rightharpoonup> pyval"

definition and_then :: "error + 'a \<Rightarrow> ('a \<Rightarrow> error + 'b) \<Rightarrow> error + 'b" where
  "and_then m f = (case m of Inl e \<Rightarrow> Inl e | Inr v \<Rightarrow> f v)"

text \<open>\<open>d[k]\<close> on a dictionary.\<close>

definition getitem :: "pydict \<Rightarrow> string \<Rightarrow> error + pyval" where
  "getitem d k = (case d k of None \<Rightarrow> Inl (KeyError k) | Some v \<Rightarrow> Inr v)"

text \<open>\<open>a + b\<close>: integer addition, string concatenation, \<open>TypeError\<close> for a mixed pair.\<close>

fun py_add :: "pyval \<Rightarrow> pyval \<Rightarrow> error + pyval" where
  "py_add (PInt a) (PInt b) = Inr (PInt (a + b))"
| "py_add (PStr a) (PStr b) = Inr (PStr (a @ b))"
| "py_add (PInt a) (PStr b) = Inl TypeError"
| "py_add (PStr a) (PInt b) = Inl TypeError"

text \<open>Decimal rendering of an integer, as \<open>%d\<close> prints it.\<close>

definition digit_char :: "nat \<Rightarrow> char" where
  "digit_char n = ''0123456789'' ! n"

fun show_nat :: "nat \<Rightarrow> string" where
  "show_nat n =
     (if n < 10 then [digit_char n] else show_nat (n div 10) @ [digit_char (n mod 10)])"

declare show_nat.simps [simp del]

definition show_int :: "int \<Rightarrow> string" where
  "show_int i = (if i < 0 then CHR ''-'' # show_nat (nat (- i)) else show_nat (nat i))"

text \<open>The conversions \<open>%d\<close> and \<open>%s\<close> of the \<open>%\<close> operator.\<close>

fun format_d :: "pyval \<Rightarrow> error + string" where
  "format_d (PInt n) = Inr (show_int n)"
| "format_d (PStr s) = Inl TypeError"

fun format_s :: "pyval \<Rightarrow> string" where
  "format_s (PInt n) = show_int n"
| "format_s (PStr s) = s"

text \<open>\<open>'%(k)d' % d\<close> and \<open>'%(k)s' % d\<close>: the key is looked up, then converted.\<close>

definition format_key_d :: "pydict \<Rightarrow> string \<Rightarrow> error + string" where
  "format_key_d d k = and_then (getitem d k) format_d"

definition format_key_s :: "pydict \<Rightarrow> string \<Rightarrow> error + string" where
  "format_key_s d k = and_then (getitem d k) (\<lambda>v. Inr (format_s v))"


section \<open>The shared state\<close>

text \<open>
  \<open>configure\<close> creates \<open>self.errorlist = manager.list()\<close> and
  \<open>self.stats = manager.dict(errors=0, failures=0, passes=0, skipped=0)\<close>. The record below
  is the content of these two manager objects. Every method call on a proxy is one request
  to the manager: \<open>__getitem__\<close>, \<open>__setitem__\<close> and \<open>append\<close> are the three requests that
  the plugin issues.
\<close>

record shared_state =
  errorlist :: "string list"
  stats :: pydict

definition stats_get :: "shared_state \<Rightarrow> string \<Rightarrow> error + pyval" where
  "stats_get s k = getitem (stats s) k"

definition stats_set :: "shared_state \<Rightarrow> string \<Rightarrow> pyval \<Rightarrow> shared_state" where
  "stats_set s k v = s\<lparr>stats := (stats s)(k \<mapsto> v)\<rparr>"

definition errorlist_append :: "shared_state \<Rightarrow> string \<Rightarrow> shared_state" where
  "errorlist_append s x = s\<lparr>errorlist := errorlist s @ [x]\<rparr>"

text \<open>
  \<open>self.stats[k] += 1\<close>, run without interruption: \<open>__getitem__\<close>, the addition in the
  calling process, then \<open>__setitem__\<close>.
\<close>

definition stats_incr :: "shared_state \<Rightarrow> string \<Rightarrow> error + shared_state" where
  "stats_incr s k =
     and_then (stats_get s k) (\<lambda>v.
     and_then (py_add v (PInt 1)) (\<lambda>v'.
     Inr (stats_set s k v')))"

text \<open>The dictionary that \<open>configure\<close> passes to \<open>manager.dict\<close>.\<close>

definition initial_stats :: pydict where
  "initial_stats =
     [''errors'' \<mapsto> PInt 0, ''failures'' \<mapsto> PInt 0, ''passes'' \<mapsto> PInt 0,
      ''skipped'' \<mapsto> PInt 0]"

definition initial_shared :: shared_state where
  "initial_shared = \<lparr>errorlist = [], stats = initial_stats\<rparr>"


section \<open>The outcome handlers\<close>

subsection \<open>Local time and its rendering\<close>

text \<open>
  The handlers render a timestamp \<open>t\<close> as \<open>datetime.fromtimestamp(t).strftime('%x %X')\<close>.
  \<open>fromtimestamp\<close> gives the local date and time. By the documentation of the library,
  the directive \<open>%x\<close> is the date representation and \<open>%X\<close> the time representation of
  the locale of the process; \<open>strftime\<close> below replaces these two directives, the only
  ones the source uses, and copies every other character.
\<close>

record datetime =
  dt_year :: nat
  dt_month :: nat
  dt_day :: nat
  dt_hour :: nat
  dt_minute :: nat
  dt_second :: nat
  dt_microsecond :: nat

record time_locale =
  date_repr :: "datetime \<Rightarrow> string"
  time_repr :: "datetime \<Rightarrow> string"

fun strftime :: "time_locale \<Rightarrow> string \<Rightarrow> datetime \<Rightarrow> string" where
  "strftime loc [] dt = []"
| "strftime loc [c] dt = [c]"
| "strftime loc (c # d # rest) dt =
     (if c = CHR ''%'' \<and> d = CHR ''x'' then date_repr loc dt @ strftime loc rest dt
      else if c = CHR ''%'' \<and> d = CHR ''X'' then time_repr loc dt @ strftime loc rest dt
      else c # strftime loc (d # rest) dt)"

text \<open>
  The C locale, which a process has until it sets another one: \<open>%x\<close> is \<open>%m/%d/%y\<close> and
  \<open>%X\<close> is \<open>%H:%M:%S\<close>.
\<close>

definition two_digits :: "nat \<Rightarrow> string" where
  "two_digits n = [digit_char (n div 10 mod 10), digit_char (n mod 10)]"

definition c_locale :: time_locale where
  "c_locale =
     \<lparr>date_repr = (\<lambda>d. two_digits (dt_month d) @ ''/'' @ two_digits (dt_day d) @ ''/'' @
                         two_digits (dt_year d mod 100)),
      time_repr = (\<lambda>d. two_digits (dt_hour d) @ '':'' @ two_digits (dt_minute d) @ '':'' @
                         two_digits (dt_second d))\<rparr>"

subsection \<open>What the handlers call\<close>

text \<open>
  The handlers call functions of \<open>nose\<close> and of the library that are not part of this
  repository. Each of these calls can raise, so each returns \<open>error + 'a\<close>; they are
  parameters of the model. \<open>'t\<close> is the type of timestamps and durations (Python floats,
  with \<open>time_add\<close> their addition), \<open>'e\<close> the type of the \<open>err\<close> triple.
  \<open>is_SkipTest h err\<close> is \<open>issubclass(err[0], SkipTest)\<close>, \<open>nice_classname h err\<close> is
  \<open>nice_classname(err[0])\<close>, \<open>id_split\<close> returns the pair \<open>[head, tail]\<close> whose components
  the handlers read as \<open>[0]\<close> and \<open>[-1]\<close>, \<open>format_3f\<close> is the conversion \<open>%.3f\<close>, and
  \<open>lc_time\<close> is the locale of the process for dates and times.
\<close>

record ('t, 'e) helpers =
  quoteattr :: "string \<Rightarrow> error + string"
  id_split :: "string \<Rightarrow> error + string \<times> string"
  nice_classname :: "'e \<Rightarrow> error + string"
  exc_message :: "'e \<Rightarrow> error + string"
  format_exception :: "'e \<Rightarrow> string \<Rightarrow> error + string"
  escape_cdata :: "string \<Rightarrow> error + string"
  is_SkipTest :: "'e \<Rightarrow> error + bool"
  time_add :: "'t \<Rightarrow> 't \<Rightarrow> 't"
  format_3f :: "'t \<Rightarrow> error + string"
  fromtimestamp :: "'t \<Rightarrow> error + datetime"
  lc_time :: time_locale

text \<open>
  What one handler call obtains from the test and from its process: \<open>test.id()\<close>,
  \<open>self._timeTaken()\<close>, \<open>time()\<close>, \<open>self._getCapturedStdout()\<close> and
  \<open>self._getCapturedStderr()\<close>.
\<close>

record 't call =
  test_id :: "error + string"
  time_taken :: "error + 't"
  time_now :: "'t"
  captured_stdout :: "error + string"
  captured_stderr :: "error + string"

text \<open>
  The configuration object and the plugin instance. \<open>nose_xunitmp_state\<close> is the attribute
  \<open>config._nose_xunitmp_state\<close> (\<open>None\<close> when \<open>hasattr\<close> is false); it holds the two proxies,
  which are references to objects of the manager. \<open>timer\<close> is \<open>self._timer\<close>, \<open>None\<close> when
  the attribute does not exist.
\<close>

record config =
  nose_xunitmp_state :: "(nat \<times> nat) option"
  verbosity :: int

record 't plugin =
  enabled :: bool
  plugin_config :: "config option"
  errorlist_proxy :: "nat option"
  stats_proxy :: "nat option"
  error_report_filename :: "string option"
  encoding :: string
  timer :: "'t option"

text \<open>\<open>if hasattr(self, '_timer'): started = self._timer else: started = time()\<close>\<close>

definition started_at :: "'t plugin \<Rightarrow> 't call \<Rightarrow> 't" where
  "started_at self c = (case timer self of Some t \<Rightarrow> t | None \<Rightarrow> time_now c)"

text \<open>\<open>datetime.fromtimestamp(t).strftime('%x %X')\<close>\<close>

definition strftime_xX :: "('t, 'e) helpers \<Rightarrow> 't \<Rightarrow> error + string" where
  "strftime_xX h t =
     and_then (fromtimestamp h t) (\<lambda>dt. Inr (strftime (lc_time h) ''%x %X'' dt))"

text \<open>\<open>self._quoteattr(id_split(id)[0])\<close> and \<open>self._quoteattr(id_split(id)[-1])\<close>\<close>

definition quoted_class :: "('t, 'e) helpers \<Rightarrow> string \<Rightarrow> error + string" where
  "quoted_class h tid = and_then (id_split h tid) (\<lambda>p. quoteattr h (fst p))"

definition quoted_name :: "('t, 'e) helpers \<Rightarrow> string \<Rightarrow> error + string" where
  "quoted_name h tid = and_then (id_split h tid) (\<lambda>p. quoteattr h (snd p))"

text \<open>
  \<open>self._quoteattr(nice_classname(err[0]))\<close> and \<open>self._quoteattr(exc_message(err))\<close>
\<close>

definition quoted_errtype :: "('t, 'e) helpers \<Rightarrow> 'e \<Rightarrow> error + string" where
  "quoted_errtype h err = and_then (nice_classname h err) (quoteattr h)"

definition quoted_message :: "('t, 'e) helpers \<Rightarrow> 'e \<Rightarrow> error + string" where
  "quoted_message h err = and_then (exc_message h err) (quoteattr h)"

subsection \<open>The fragments\<close>

text \<open>
  The opening tag, which the three templates share:
  \<open><testcase classname=%(cls)s name=%(name)s time="%(taken).3f" started="%(started)s"
  ended="%(ended)s">\<close>. Its arguments are the values of the mapping, as texts.
\<close>

definition testcase_open :: "string \<Rightarrow> string \<Rightarrow> string \<Rightarrow> string \<Rightarrow> string \<Rightarrow> string" where
  \<open>testcase_open cls name taken started ended =
     ''<testcase classname='' @ cls @ '' name='' @ name @
     '' time="'' @ taken @ ''" started="'' @ started @ ''" ended="'' @ ended @ ''">''\<close>

text \<open>
  The fragment of \<open>addError\<close>, from the statement after the increment on: \<open>ty\<close> is the local
  variable \<open>type\<close> and \<open>taken\<close> the value of \<open>self._timeTaken()\<close>. The calls are made in the
  order of the source: \<open>format_exception\<close>, \<open>test.id()\<close>, then the values of the mapping
  from \<open>cls\<close> to \<open>ended\<close>, then the conversions of the format. The first call that raises
  ends the computation.
\<close>

definition error_fragment ::
  "('t, 'e) helpers \<Rightarrow> 't plugin \<Rightarrow> 't call \<Rightarrow> 'e \<Rightarrow> string \<Rightarrow> 't \<Rightarrow> error + string" where
  \<open>error_fragment h self c err ty taken =
     and_then (format_exception h err (encoding self)) (\<lambda>tb.
     and_then (test_id c) (\<lambda>tid.
     let started = started_at self c;
         ended = time_add h started taken in
     and_then (quoted_class h tid) (\<lambda>cls.
     and_then (quoted_name h tid) (\<lambda>name.
     and_then (quoted_errtype h err) (\<lambda>errtype.
     and_then (quoted_message h err) (\<lambda>message.
     and_then (escape_cdata h tb) (\<lambda>cdata.
     and_then (captured_stdout c) (\<lambda>systemout.
     and_then (captured_stderr c) (\<lambda>systemerr.
     and_then (strftime_xX h started) (\<lambda>started_text.
     and_then (strftime_xX h ended) (\<lambda>ended_text.
     and_then (format_3f h taken) (\<lambda>taken_text.
     Inr (testcase_open cls name taken_text started_text ended_text @
          ''<'' @ ty @ '' type='' @ errtype @ '' message='' @ message @
          ''><![CDATA['' @ cdata @ '']]>'' @
          ''</'' @ ty @ ''>'' @ systemout @ systemerr @ ''</testcase>'')))))))))))))\<close>

text \<open>
  The fragment of \<open>addFailure\<close>, from the statement after the increment on; \<open>tb\<close> is the
  value of \<open>format_exception\<close>, which \<open>addFailure\<close> calls before the increment.
\<close>

definition failure_fragment ::
  "('t, 'e) helpers \<Rightarrow> 't plugin \<Rightarrow> 't call \<Rightarrow> 'e \<Rightarrow> 't \<Rightarrow> string \<Rightarrow> error + string" where
  \<open>failure_fragment h self c err taken tb =
     and_then (test_id c) (\<lambda>tid.
     let started = started_at self c;
         ended = time_add h started taken in
     and_then (quoted_class h tid) (\<lambda>cls.
     and_then (quoted_name h tid) (\<lambda>name.
     and_then (quoted_errtype h err) (\<lambda>errtype.
     and_then (quoted_message h err) (\<lambda>message.
     and_then (escape_cdata h tb) (\<lambda>cdata.
     and_then (captured_stdout c) (\<lambda>systemout.
     and_then (captured_stderr c) (\<lambda>systemerr.
     and_then (strftime_xX h started) (\<lambda>started_text.
     and_then (strftime_xX h ended) (\<lambda>ended_text.
     and_then (format_3f h taken) (\<lambda>taken_text.
     Inr (testcase_open cls name taken_text started_text ended_text @
          ''<failure type='' @ errtype @ '' message='' @ message @
          ''><![CDATA['' @ cdata @ '']]>'' @
          ''</failure>'' @ systemout @ systemerr @ ''</testcase>''))))))))))))\<close>

text \<open>The fragment of \<open>addSuccess\<close>, from the statement after the increment on.\<close>

definition success_fragment ::
  "('t, 'e) helpers \<Rightarrow> 't plugin \<Rightarrow> 't call \<Rightarrow> 't \<Rightarrow> error + string" where
  \<open>success_fragment h self c taken =
     and_then (test_id c) (\<lambda>tid.
     let started = started_at self c;
         ended = time_add h started taken in
     and_then (quoted_class h tid) (\<lambda>cls.
     and_then (quoted_name h tid) (\<lambda>name.
     and_then (captured_stdout c) (\<lambda>systemout.
     and_then (captured_stderr c) (\<lambda>systemerr.
     and_then (strftime_xX h started) (\<lambda>started_text.
     and_then (strftime_xX h ended) (\<lambda>ended_text.
     and_then (format_3f h taken) (\<lambda>taken_text.
     Inr (testcase_open cls name taken_text started_text ended_text @
          systemout @ systemerr @ ''</testcase>'')))))))))\<close>

subsection \<open>The handlers\<close>

text \<open>
  A handler either returns or raises; in both cases the shared state is what the handler
  has made of it so far. A handler that raises after the increment leaves the counter
  incremented and appends nothing.
\<close>

datatype outcome = Returned shared_state | Raised error shared_state

text \<open>\<open>self.errorlist.append(...)\<close>, once the argument has been computed.\<close>

definition append_fragment :: "shared_state \<Rightarrow> error + string \<Rightarrow> outcome" where
  "append_fragment s fragment =
     (case fragment of
        Inl e \<Rightarrow> Raised e s
      | Inr x \<Rightarrow> Returned (errorlist_append s x))"

text \<open>
  The handlers, each run without interruption on the shared state. \<open>addError\<close> selects the
  element name and the counter by \<open>issubclass(err[0], SkipTest)\<close>.
\<close>

definition addError ::
  "('t, 'e) helpers \<Rightarrow> 't plugin \<Rightarrow> 't call \<Rightarrow> 'e \<Rightarrow> shared_state \<Rightarrow> outcome" where
  "addError h self c err s =
     (case time_taken c of
        Inl e \<Rightarrow> Raised e s
      | Inr taken \<Rightarrow>
          (case is_SkipTest h err of
             Inl e \<Rightarrow> Raised e s
           | Inr skip \<Rightarrow>
               if skip
               then (case stats_incr s ''skipped'' of
                       Inl e \<Rightarrow> Raised e s
                     | Inr s' \<Rightarrow>
                         append_fragment s' (error_fragment h self c err ''skipped'' taken))
               else (case stats_incr s ''errors'' of
                       Inl e \<Rightarrow> Raised e s
                     | Inr s' \<Rightarrow>
                         append_fragment s' (error_fragment h self c err ''error'' taken))))"

definition addFailure ::
  "('t, 'e) helpers \<Rightarrow> 't plugin \<Rightarrow> 't call \<Rightarrow> 'e \<Rightarrow> shared_state \<Rightarrow> outcome" where
  "addFailure h self c err s =
     (case time_taken c of
        Inl e \<Rightarrow> Raised e s
      | Inr taken \<Rightarrow>
          (case format_exception h err (encoding self) of
             Inl e \<Rightarrow> Raised e s
           | Inr tb \<Rightarrow>
               (case stats_incr s ''failures'' of
                  Inl e \<Rightarrow> Raised e s
                | Inr s' \<Rightarrow>
                    append_fragment s' (failure_fragment h self c err taken tb))))"

definition addSuccess ::
  "('t, 'e) helpers \<Rightarrow> 't plugin \<Rightarrow> 't call \<Rightarrow> shared_state \<Rightarrow> outcome" where
  "addSuccess h self c s =
     (case time_taken c of
        Inl e \<Rightarrow> Raised e s
      | Inr taken \<Rightarrow>
          (case stats_incr s ''passes'' of
             Inl e \<Rightarrow> Raised e s
           | Inr s' \<Rightarrow>
               append_fragment s' (success_fragment h self c taken)))"


section \<open>Encoded output files\<close>

text \<open>
  \<open>codecs.open(filename, 'w', encoding, errors)\<close> returns a writer that encodes every text
  it is given and appends the bytes to the file. A codec maps a character to its bytes,
  or to \<open>None\<close> when the encoding cannot represent it. Under \<open>'strict'\<close> such a character
  raises \<open>UnicodeEncodeError\<close>; under \<open>'replace'\<close> a question mark is encoded in its place,
  one for each such character. A text is a \<open>string\<close>: its characters stand for the code
  points below 256, which include characters that an encoding such as ASCII cannot
  represent.
\<close>

type_synonym byte = "8 word"

type_synonym codec = "char \<Rightarrow> byte list option"

datatype errors_mode = Strict | Replace

definition encode_char :: "codec \<Rightarrow> errors_mode \<Rightarrow> char \<Rightarrow> error + byte list" where
  "encode_char cd m c =
     (case cd c of
        Some bs \<Rightarrow> Inr bs
      | None \<Rightarrow>
          (case m of
             Strict \<Rightarrow> Inl UnicodeEncodeError
           | Replace \<Rightarrow>
               (case cd CHR ''?'' of
                  Some q \<Rightarrow> Inr q
                | None \<Rightarrow> Inl UnicodeEncodeError)))"

fun encode :: "codec \<Rightarrow> errors_mode \<Rightarrow> string \<Rightarrow> error + byte list" where
  "encode cd m [] = Inr []"
| "encode cd m (c # cs) =
     and_then (encode_char cd m c) (\<lambda>bs.
     and_then (encode cd m cs) (\<lambda>rest.
     Inr (bs @ rest)))"

record filesystem =
  files :: "string \<rightharpoonup> byte list"
  writable :: "string \<Rightarrow> bool"

record stream_writer =
  sw_name :: string
  sw_codec :: codec
  sw_errors :: errors_mode
  sw_data :: "byte list"

text \<open>
  Opening for writing creates or truncates the file; it fails with \<open>IOError\<close> on a path
  that cannot be written and with \<open>LookupError\<close> on an unknown encoding name. \<open>reg\<close> is the
  codec registry.
\<close>

definition codecs_open ::
  "(string \<Rightarrow> codec option) \<Rightarrow> filesystem \<Rightarrow> string \<Rightarrow> string \<Rightarrow> errors_mode
     \<Rightarrow> error + stream_writer \<times> filesystem" where
  "codecs_open reg fs path enc m =
     (if \<not> writable fs path then Inl (IOError path)
      else case reg enc of
             None \<Rightarrow> Inl (LookupError enc)
           | Some cd \<Rightarrow>
               Inr (\<lparr>sw_name = path, sw_codec = cd, sw_errors = m, sw_data = []\<rparr>,
                    fs\<lparr>files := (files fs)(path \<mapsto> [])\<rparr>))"

definition sw_write :: "stream_writer \<Rightarrow> string \<Rightarrow> error + stream_writer" where
  "sw_write f text =
     and_then (encode (sw_codec f) (sw_errors f) text) (\<lambda>bs.
     Inr (f\<lparr>sw_data := sw_data f @ bs\<rparr>))"

definition sw_close :: "filesystem \<Rightarrow> stream_writer \<Rightarrow> filesystem" where
  "sw_close fs f = fs\<lparr>files := (files fs)(sw_name f \<mapsto> sw_data f)\<rparr>"


section \<open>The report\<close>

text \<open>
  \<open>self.stats['errors'] + self.stats['failures'] + self.stats['passes'] +
  self.stats['skipped']\<close>, evaluated from left to right.
\<close>

definition stats_total :: "shared_state \<Rightarrow> error + pyval" where
  "stats_total s =
     and_then (stats_get s ''errors'') (\<lambda>e.
     and_then (stats_get s ''failures'') (\<lambda>f.
     and_then (py_add e f) (\<lambda>ef.
     and_then (stats_get s ''passes'') (\<lambda>p.
     and_then (py_add ef p) (\<lambda>efp.
     and_then (stats_get s ''skipped'') (\<lambda>k.
     py_add efp k))))))"

text \<open>The first text that \<open>report\<close> writes: the format string applied to \<open>self.stats\<close>.\<close>

definition report_header :: "pydict \<Rightarrow> error + string" where
  \<open>report_header d =
     and_then (format_key_s d ''encoding'') (\<lambda>enc.
     and_then (format_key_d d ''total'') (\<lambda>total.
     and_then (format_key_d d ''errors'') (\<lambda>errors.
     and_then (format_key_d d ''failures'') (\<lambda>failures.
     and_then (format_key_d d ''skipped'') (\<lambda>skipped.
     Inr (''<?xml version="1.0" encoding="'' @ enc @ ''"?>'' @
          ''<testsuite name="nosetests" tests="'' @ total @ ''" '' @
          ''errors="'' @ errors @ ''" failures="'' @ failures @ ''" '' @
          ''skip="'' @ skipped @ ''">''))))))\<close>

text \<open>\<open>force_unicode\<close> of \<open>nose.pyversion\<close> returns a text string as it is.\<close>

definition force_unicode :: "string \<Rightarrow> string" where
  "force_unicode s = s"

text \<open>
  The state that \<open>report\<close> works on: the file system, the shared state that the plugin is
  attached to, and the lines written to \<open>stream\<close>.
\<close>

record world =
  w_fs :: filesystem
  w_shared :: shared_state
  w_stream :: "string list"

definition report ::
  "(string \<Rightarrow> codec option) \<Rightarrow> 't plugin \<Rightarrow> world \<Rightarrow> error + world" where
  "report reg self w =
     (case error_report_filename self of
        None \<Rightarrow> Inl TypeError
      | Some path \<Rightarrow>
          and_then (codecs_open reg (w_fs w) path (encoding self) Replace) (\<lambda>(f0, fs0).
          let s1 = stats_set (w_shared w) ''encoding'' (PStr (encoding self)) in
          and_then (stats_total s1) (\<lambda>total.
          let s2 = stats_set s1 ''total'' total in
          and_then (report_header (stats s2)) (\<lambda>header.
          and_then (sw_write f0 header) (\<lambda>f1.
          and_then (sw_write f1 (concat (map force_unicode (errorlist s2)))) (\<lambda>f2.
          and_then (sw_write f2 ''</testsuite>'') (\<lambda>f3.
          let fs1 = sw_close fs0 f3 in
          (case plugin_config self of
             None \<Rightarrow> Inl (AttributeError ''config'')
           | Some cfg \<Rightarrow>
               Inr \<lparr>w_fs = fs1, w_shared = s2,
                    w_stream =
                      (if verbosity cfg > 1
                       then w_stream w @ [replicate 70 CHR ''-'', ''XML: '' @ path]
                       else w_stream w)\<rparr>))))))))"


section \<open>Configuration\<close>

text \<open>
  The objects held by managers, addressed by index: \<open>manager.list()\<close> and
  \<open>manager.dict(...)\<close> add a new object and return a proxy for it.
\<close>

record manager =
  lists :: "string list list"
  dicts :: "pydict list"

definition manager_list :: "manager \<Rightarrow> nat \<times> manager" where
  "manager_list m = (length (lists m), m\<lparr>lists := lists m @ [[]]\<rparr>)"

definition manager_dict :: "manager \<Rightarrow> pydict \<Rightarrow> nat \<times> manager" where
  "manager_dict m d = (length (dicts m), m\<lparr>dicts := dicts m @ [d]\<rparr>)"

text \<open>
  The parsed options: \<open>enable_plugin\<close> is the value from which \<open>Plugin.configure\<close> sets
  \<open>self.enabled\<close>, \<open>xunitmp_file\<close> the value of \<open>--xunitmp-file\<close>.
\<close>

record options =
  enable_plugin :: bool
  xunitmp_file :: string

definition configure ::
  "'t plugin \<Rightarrow> options \<Rightarrow> config \<Rightarrow> manager \<Rightarrow> 't plugin \<times> config \<times> manager" where
  "configure self opts cfg m =
     (let self1 = self\<lparr>enabled := enable_plugin opts, plugin_config := Some cfg\<rparr>
      in if enabled self1
         then (case nose_xunitmp_state cfg of
                 None \<Rightarrow>
                   (case manager_list m of (l, m1) \<Rightarrow>
                    case manager_dict m1 initial_stats of (d, m2) \<Rightarrow>
                    let cfg1 = cfg\<lparr>nose_xunitmp_state := Some (l, d)\<rparr>
                    in (self1\<lparr>plugin_config := Some cfg1,
                               errorlist_proxy := Some l, stats_proxy := Some d,
                               error_report_filename := Some (xunitmp_file opts)\<rparr>,
                        cfg1, m2))
               | Some (l, d) \<Rightarrow>
                   (self1\<lparr>errorlist_proxy := Some l, stats_proxy := Some d,
                           error_report_filename := Some (xunitmp_file opts)\<rparr>,
                    cfg, m))
         else (self1, cfg, m))"

text \<open>The shared state that a plugin instance reaches through its two proxies.\<close>

definition attached :: "manager \<Rightarrow> 't plugin \<Rightarrow> shared_state option" where
  "attached m self =
     (case (errorlist_proxy self, stats_proxy self) of
        (Some l, Some d) \<Rightarrow>
          if l < length (lists m) \<and> d < length (dicts m)
          then Some \<lparr>errorlist = lists m ! l, stats = dicts m ! d\<rparr>
          else None
      | _ \<Rightarrow> None)"


section \<open>Handlers of several worker processes\<close>

text \<open>
  Each worker process runs its handlers on its own plugin instance, whose \<open>errorlist\<close> and
  \<open>stats\<close> are proxies for the objects of the manager. A method call on a proxy is one
  request; the manager serves the requests one at a time, in any order across workers,
  and the handlers take no lock around two requests.
  A handler is the sequence of its requests: \<open>GetItem k f\<close> reads \<open>stats[k]\<close> and continues
  with \<open>f\<close> applied to the value read, \<open>SetItem k v p\<close> stores \<open>v\<close> under \<open>k\<close>, \<open>Append x p\<close>
  appends \<open>x\<close> to the list. \<open>self.stats[k] += 1\<close> is a \<open>GetItem\<close> followed by a \<open>SetItem\<close>
  of the value read plus one. What a handler computes in its own process between two
  requests is part of the continuation; when such a computation raises, the handler ends
  in \<open>Raise\<close>.
\<close>

datatype proc =
    Done
  | Raise error
  | GetItem string "pyval \<Rightarrow> proc"
  | SetItem string pyval proc
  | Append string proc

definition incr_proc :: "string \<Rightarrow> proc \<Rightarrow> proc" where
  "incr_proc k rest =
     GetItem k (\<lambda>v. case py_add v (PInt 1) of
                       Inl e \<Rightarrow> Raise e
                     | Inr v' \<Rightarrow> SetItem k v' rest)"

definition append_proc :: "error + string \<Rightarrow> proc" where
  "append_proc fragment = (case fragment of Inl e \<Rightarrow> Raise e | Inr x \<Rightarrow> Append x Done)"

definition addError_proc :: "('t, 'e) helpers \<Rightarrow> 't plugin \<Rightarrow> 't call \<Rightarrow> 'e \<Rightarrow> proc" where
  "addError_proc h self c err =
     (case time_taken c of
        Inl e \<Rightarrow> Raise e
      | Inr taken \<Rightarrow>
          (case is_SkipTest h err of
             Inl e \<Rightarrow> Raise e
           | Inr skip \<Rightarrow>
               if skip
               then incr_proc ''skipped''
                      (append_proc (error_fragment h self c err ''skipped'' taken))
               else incr_proc ''errors''
                      (append_proc (error_fragment h self c err ''error'' taken))))"

definition addFailure_proc :: "('t, 'e) helpers \<Rightarrow> 't plugin \<Rightarrow> 't call \<Rightarrow> 'e \<Rightarrow> proc" where
  "addFailure_proc h self c err =
     (case time_taken c of
        Inl e \<Rightarrow> Raise e
      | Inr taken \<Rightarrow>
          (case format_exception h err (encoding self) of
             Inl e \<Rightarrow> Raise e
           | Inr tb \<Rightarrow>
               incr_proc ''failures'' (append_proc (failure_fragment h self c err taken tb))))"

definition addSuccess_proc :: "('t, 'e) helpers \<Rightarrow> 't plugin \<Rightarrow> 't call \<Rightarrow> proc" where
  "addSuccess_proc h self c =
     (case time_taken c of
        Inl e \<Rightarrow> Raise e
      | Inr taken \<Rightarrow> incr_proc ''passes'' (append_proc (success_fragment h self c taken)))"

text \<open>One request of a worker, served by the manager.\<close>

fun proc_step :: "proc \<Rightarrow> shared_state \<Rightarrow> proc \<times> shared_state" where
  "proc_step Done s = (Done, s)"
| "proc_step (Raise e) s = (Raise e, s)"
| "proc_step (GetItem k f) s =
     (case stats_get s k of Inl e \<Rightarrow> (Raise e, s) | Inr v \<Rightarrow> (f v, s))"
| "proc_step (SetItem k v p) s = (p, stats_set s k v)"
| "proc_step (Append x p) s = (p, errorlist_append s x)"

text \<open>
  A system is the list of the workers' remaining requests and the shared state. A schedule
  names, step by step, the worker whose next request is served.
\<close>

record system =
  workers :: "proc list"
  store :: shared_state

definition sched_step :: "system \<Rightarrow> nat \<Rightarrow> system" where
  "sched_step sys w =
     (if w < length (workers sys)
      then (case proc_step (workers sys ! w) (store sys) of
              (p, s) \<Rightarrow> \<lparr>workers = (workers sys)[w := p], store = s\<rparr>)
      else sys)"

definition run_schedule :: "nat list \<Rightarrow> system \<Rightarrow> system" where
  "run_schedule sch sys = foldl sched_step sys sch"

text \<open>A handler run to its end with no other worker in between.\<close>

primrec exec :: "proc \<Rightarrow> shared_state \<Rightarrow> outcome" where
  "exec Done = (\<lambda>s. Returned s)"
| "exec (Raise e) = (\<lambda>s. Raised e s)"
| "exec (GetItem k f) =
     (\<lambda>s. case stats_get s k of Inl e \<Rightarrow> Raised e s | Inr v \<Rightarrow> exec (f v) s)"
| "exec (SetItem k v p) = (\<lambda>s. exec p (stats_set s k v))"
| "exec (Append x p) = (\<lambda>s. exec p (errorlist_append s x))"


section \<open>Notions used in the statements\<close>

text \<open>The value of a counter, when it is an integer, and the sum of the four counters.\<close>

definition counter_of :: "shared_state \<Rightarrow> string \<Rightarrow> int option" where
  "counter_of s k = (case stats s k of Some (PInt n) \<Rightarrow> Some n | _ \<Rightarrow> None)"

definition counter_total :: "shared_state \<Rightarrow> int option" where
  "counter_total s =
     Option.bind (counter_of s ''errors'') (\<lambda>e.
     Option.bind (counter_of s ''failures'') (\<lambda>f.
     Option.bind (counter_of s ''passes'') (\<lambda>p.
     Option.bind (counter_of s ''skipped'') (\<lambda>k.
     Some (e + f + p + k)))))"

text \<open>
  The bytes of a text in which every character that the codec cannot represent is written
  as \<open>q\<close>, the bytes of the question mark.
\<close>

definition replaced :: "codec \<Rightarrow> byte list \<Rightarrow> string \<Rightarrow> byte list" where
  "replaced cd q xs = concat (map (\<lambda>c. case cd c of None \<Rightarrow> q | Some bs \<Rightarrow> bs) xs)"

text \<open>The entry of the shared dictionary under a key once \<open>report\<close> has returned.\<close>

definition stats_after_report ::
  "(string \<Rightarrow> codec option) \<Rightarrow> 't plugin \<Rightarrow> world \<Rightarrow> string \<Rightarrow> pyval option" where
  "stats_after_report reg self w k =
     (case report reg self w of Inl e \<Rightarrow> None | Inr w' \<Rightarrow> stats (w_shared w') k)"


section \<open>Sample instances\<close>

text \<open>
  Concrete codecs, helper functions, locales, a plugin instance and a state on which the
  functions above are evaluated. The two codecs cover the characters below 256: ASCII
  represents those below 128 only, UTF-8 writes the others as two bytes.
\<close>

definition ascii_codec :: codec where
  "ascii_codec c = (if (of_char c :: nat) < 128 then Some [of_char c] else None)"

definition utf8_codec :: codec where
  "utf8_codec c =
     (let n = (of_char c :: nat)
      in if n < 128 then Some [of_nat n]
         else Some [of_nat (192 + n div 64), of_nat (128 + n mod 64)])"

definition sample_registry :: "string \<Rightarrow> codec option" where
  "sample_registry name =
     (if name = ''UTF-8'' then Some utf8_codec
      else if name = ''ascii'' then Some ascii_codec
      else None)"

text \<open>
  A sample \<open>id_split\<close> in the manner of the one of \<open>nose\<close>: the name before the arguments
  is split at its last dot and the arguments stay with the tail; an identifier with
  arguments and no dot raises \<open>ValueError\<close>, and one with neither is head and tail at once.
\<close>

definition before_last_dot :: "string \<Rightarrow> string" where
  "before_last_dot s = rev (drop 1 (dropWhile (\<lambda>c. c \<noteq> CHR ''.'') (rev s)))"

definition after_last_dot :: "string \<Rightarrow> string" where
  "after_last_dot s = rev (takeWhile (\<lambda>c. c \<noteq> CHR ''.'') (rev s))"

definition sample_id_split :: "string \<Rightarrow> error + string \<times> string" where
  "sample_id_split s =
     (let name = takeWhile (\<lambda>c. c \<noteq> CHR ''('') s;
          fargs = dropWhile (\<lambda>c. c \<noteq> CHR ''('') s
      in if fargs \<noteq> []
         then (if CHR ''.'' \<in> set name
               then Inr (before_last_dot name, after_last_dot name @ fargs)
               else Inl (ValueError ''need more than 1 value to unpack''))
         else if CHR ''.'' \<in> set s then Inr (before_last_dot s, after_last_dot s)
         else Inr (s, s))"

text \<open>
  Sample timestamps are the seconds since midnight of 4 November 2026, local time. The
  second sample locale writes the date as day, month and year with dots, as the German
  locales of the C library do.
\<close>

definition sample_fromtimestamp :: "nat \<Rightarrow> error + datetime" where
  "sample_fromtimestamp t =
     Inr \<lparr>dt_year = 2026, dt_month = 11, dt_day = 4, dt_hour = t div 3600 mod 24,
          dt_minute = t div 60 mod 60, dt_second = t mod 60, dt_microsecond = 0\<rparr>"

definition sample_de_locale :: time_locale where
  "sample_de_locale =
     \<lparr>date_repr = (\<lambda>d. two_digits (dt_day d) @ ''.'' @ two_digits (dt_month d) @ ''.'' @
                         show_nat (dt_year d)),
      time_repr = (\<lambda>d. two_digits (dt_hour d) @ '':'' @ two_digits (dt_minute d) @ '':'' @
                         two_digits (dt_second d))\<rparr>"

definition sample_helpers :: "(nat, string) helpers" where
  "sample_helpers =
     \<lparr>quoteattr = (\<lambda>s. Inr ([CHR 0x22] @ s @ [CHR 0x22])),
      id_split = sample_id_split,
      nice_classname = (\<lambda>e. Inr e),
      exc_message = (\<lambda>e. Inr ''boom''),
      format_exception = (\<lambda>e enc. Inr ''line1''),
      escape_cdata = (\<lambda>s. Inr s),
      is_SkipTest = (\<lambda>e. Inr (e = ''SkipTest'')),
      time_add = (\<lambda>a b. a + b),
      format_3f = (\<lambda>t. Inr (show_nat t @ ''.000'')),
      fromtimestamp = sample_fromtimestamp,
      lc_time = c_locale\<rparr>"

definition sample_options :: options where
  "sample_options = \<lparr>enable_plugin = True, xunitmp_file = ''nosetests.xml''\<rparr>"

definition sample_config :: config where
  "sample_config = \<lparr>nose_xunitmp_state = Some (0, 0), verbosity = 2\<rparr>"

definition sample_manager :: manager where
  "sample_manager = \<lparr>lists = [[]], dicts = [initial_stats]\<rparr>"

definition sample_new_plugin :: "nat plugin" where
  "sample_new_plugin =
     \<lparr>enabled = False, plugin_config = None, errorlist_proxy = None, stats_proxy = None,
      error_report_filename = None, encoding = ''UTF-8'', timer = None\<rparr>"

definition sample_plugin :: "nat plugin" where
  "sample_plugin =
     \<lparr>enabled = True, plugin_config = Some sample_config, errorlist_proxy = Some 0,
      stats_proxy = Some 0, error_report_filename = Some ''nosetests.xml'',
      encoding = ''UTF-8'', timer = None\<rparr>"

definition sample_call :: "nat call" where
  "sample_call =
     \<lparr>test_id = Inr ''suite.Case.test_a'', time_taken = Inr 2, time_now = 40,
      captured_stdout = Inr ''<system-out>hi</system-out>'', captured_stderr = Inr []\<rparr>"

definition sample_world :: world where
  "sample_world =
     \<lparr>w_fs = \<lparr>files = Map.empty, writable = (\<lambda>p. True)\<rparr>,
      w_shared = \<lparr>errorlist = [''<testcase/>'', [CHR ''<'', CHR 0xE9, CHR ''/'', CHR ''>'']],
                  stats = initial_stats(''passes'' \<mapsto> PInt 2)\<rparr>,
      w_stream = []\<rparr>"


section \<open>Basic facts\<close>

lemma and_then_Inl [simp]: "and_then (Inl e) f = Inl e"
  by (simp add: and_then_def)

lemma and_then_Inr [simp]: "and_then (Inr v) f = f v"
  by (simp add: and_then_def)

lemma and_then_eq_Inr: "and_then m f = Inr y \<longleftrightarrow> (\<exists>v. m = Inr v \<and> f v = Inr y)"
  by (cases m) simp_all

lemma initial_stats_values:
  "initial_stats ''errors'' = Some (PInt 0)"
  "initial_stats ''failures'' = Some (PInt 0)"
  "initial_stats ''passes'' = Some (PInt 0)"
  "initial_stats ''skipped'' = Some (PInt 0)"
  "initial_stats ''encoding'' = None"
  "initial_stats ''total'' = None"
  by (simp_all add: initial_stats_def)

lemma stats_incr_int:
  "stats s k = Some (PInt n) \<Longrightarrow>
     stats_incr s k = Inr (s\<lparr>stats := (stats s)(k \<mapsto> PInt (n + 1))\<rparr>)"
  by (simp add: stats_incr_def stats_get_def getitem_def stats_set_def)

lemma stats_incr_InrD:
  "stats_incr s k = Inr s' \<Longrightarrow>
     \<exists>n. stats s k = Some (PInt n) \<and> s' = s\<lparr>stats := (stats s)(k \<mapsto> PInt (n + 1))\<rparr>"
  by (cases "stats s k"; cases "the (stats s k)")
     (auto simp add: stats_incr_def stats_get_def getitem_def stats_set_def)

lemma append_fragment_ReturnedD:
  "append_fragment t fragment = Returned s' \<Longrightarrow>
     \<exists>x. fragment = Inr x \<and> s' = t\<lparr>errorlist := errorlist t @ [x]\<rparr>"
  by (cases fragment) (simp_all add: append_fragment_def errorlist_append_def)

text \<open>The rendering of \<open>'%x %X'\<close>: the two representations of the locale and a space.\<close>

lemma strftime_xX_format:
  "strftime loc ''%x %X'' dt = date_repr loc dt @ '' '' @ time_repr loc dt"
  by simp

lemma strftime_xX_InrD:
  "strftime_xX h t = Inr x \<Longrightarrow>
     \<exists>dt. fromtimestamp h t = Inr dt \<and>
          x = date_repr (lc_time h) dt @ '' '' @ time_repr (lc_time h) dt"
  by (auto simp add: strftime_xX_def and_then_eq_Inr)

text \<open>What a handler has done when it returns.\<close>

lemma addSuccess_ReturnedD:
  assumes "addSuccess h self c s = Returned s'"
  shows "\<exists>taken n x. time_taken c = Inr taken \<and> stats s ''passes'' = Some (PInt n) \<and>
           success_fragment h self c taken = Inr x \<and>
           s' = \<lparr>errorlist = errorlist s @ [x], stats = (stats s)(''passes'' \<mapsto> PInt (n + 1))\<rparr>"
proof -
  from assms obtain taken t where 1: "time_taken c = Inr taken"
    and 2: "stats_incr s ''passes'' = Inr t"
    and 3: "append_fragment t (success_fragment h self c taken) = Returned s'"
    by (auto simp add: addSuccess_def split: sum.splits)
  from stats_incr_InrD [OF 2] append_fragment_ReturnedD [OF 3] 1 show ?thesis
    by auto
qed

lemma addFailure_ReturnedD:
  assumes "addFailure h self c err s = Returned s'"
  shows "\<exists>taken tb n x. time_taken c = Inr taken \<and>
           format_exception h err (encoding self) = Inr tb \<and>
           stats s ''failures'' = Some (PInt n) \<and>
           failure_fragment h self c err taken tb = Inr x \<and>
           s' = \<lparr>errorlist = errorlist s @ [x],
                 stats = (stats s)(''failures'' \<mapsto> PInt (n + 1))\<rparr>"
proof -
  from assms obtain taken tb t where 1: "time_taken c = Inr taken"
    and 2: "format_exception h err (encoding self) = Inr tb"
    and 3: "stats_incr s ''failures'' = Inr t"
    and 4: "append_fragment t (failure_fragment h self c err taken tb) = Returned s'"
    by (auto simp add: addFailure_def split: sum.splits)
  from stats_incr_InrD [OF 3] append_fragment_ReturnedD [OF 4] 1 2 show ?thesis
    by auto
qed

lemma addError_ReturnedD:
  assumes "addError h self c err s = Returned s'"
  shows "\<exists>taken ty k n x. time_taken c = Inr taken \<and>
           (k = ''skipped'' \<or> k = ''errors'') \<and> stats s k = Some (PInt n) \<and>
           error_fragment h self c err ty taken = Inr x \<and>
           s' = \<lparr>errorlist = errorlist s @ [x], stats = (stats s)(k \<mapsto> PInt (n + 1))\<rparr>"
proof (cases "time_taken c")
  case (Inl e)
  with assms show ?thesis by (simp add: addError_def)
next
  case taken: (Inr taken)
  show ?thesis
  proof (cases "is_SkipTest h err")
    case (Inl e)
    with assms taken show ?thesis by (simp add: addError_def)
  next
    case (Inr skip)
    have step: ?thesis
      if k: "k = ''skipped'' \<or> k = ''errors''"
        and r: "(case stats_incr s k of
                   Inl e \<Rightarrow> Raised e s
                 | Inr t \<Rightarrow> append_fragment t (error_fragment h self c err ty taken)) =
                Returned s'" for k ty
    proof -
      from r obtain t where 3: "stats_incr s k = Inr t"
        and 4: "append_fragment t (error_fragment h self c err ty taken) = Returned s'"
        by (cases "stats_incr s k") simp_all
      from stats_incr_InrD [OF 3] obtain n where n: "stats s k = Some (PInt n)"
        and t: "t = s\<lparr>stats := (stats s)(k \<mapsto> PInt (n + 1))\<rparr>"
        by blast
      from append_fragment_ReturnedD [OF 4] obtain x
        where x: "error_fragment h self c err ty taken = Inr x"
        and s': "s' = t\<lparr>errorlist := errorlist t @ [x]\<rparr>"
        by blast
      have "s' = \<lparr>errorlist = errorlist s @ [x], stats = (stats s)(k \<mapsto> PInt (n + 1))\<rparr>"
        by (simp add: s' t)
      with taken k n x show ?thesis by blast
    qed
    show ?thesis
    proof (cases skip)
      case True
      with assms taken Inr show ?thesis
        by (intro step [of "''skipped''" "''skipped''"]) (simp_all add: addError_def)
    next
      case False
      with assms taken Inr show ?thesis
        by (intro step [of "''errors''" "''error''"]) (simp_all add: addError_def)
    qed
  qed
qed

text \<open>
  The opening tag of a fragment that has been computed: every one of its parts is the value
  that the call of the source has returned.
\<close>

lemma success_fragment_open:
  assumes "success_fragment h self c taken = Inr x"
  shows "\<exists>tid cls name taken_text started_text ended_text body.
           test_id c = Inr tid \<and> quoted_class h tid = Inr cls \<and> quoted_name h tid = Inr name \<and>
           format_3f h taken = Inr taken_text \<and>
           strftime_xX h (started_at self c) = Inr started_text \<and>
           strftime_xX h (time_add h (started_at self c) taken) = Inr ended_text \<and>
           x = testcase_open cls name taken_text started_text ended_text @ body"
  using assms by (auto simp add: success_fragment_def and_then_eq_Inr Let_def)

lemma failure_fragment_open:
  assumes "failure_fragment h self c err taken tb = Inr x"
  shows "\<exists>tid cls name taken_text started_text ended_text body.
           test_id c = Inr tid \<and> quoted_class h tid = Inr cls \<and> quoted_name h tid = Inr name \<and>
           format_3f h taken = Inr taken_text \<and>
           strftime_xX h (started_at self c) = Inr started_text \<and>
           strftime_xX h (time_add h (started_at self c) taken) = Inr ended_text \<and>
           x = testcase_open cls name taken_text started_text ended_text @ body"
  using assms by (auto simp add: failure_fragment_def and_then_eq_Inr Let_def)

lemma error_fragment_open:
  assumes "error_fragment h self c err ty taken = Inr x"
  shows "\<exists>tid cls name taken_text started_text ended_text body.
           test_id c = Inr tid \<and> quoted_class h tid = Inr cls \<and> quoted_name h tid = Inr name \<and>
           format_3f h taken = Inr taken_text \<and>
           strftime_xX h (started_at self c) = Inr started_text \<and>
           strftime_xX h (time_add h (started_at self c) taken) = Inr ended_text \<and>
           x = testcase_open cls name taken_text started_text ended_text @ body"
  using assms by (auto simp add: error_fragment_def and_then_eq_Inr Let_def)

text \<open>The opening tags of the fragments of three handlers that have all returned.\<close>

lemma handlers_open_tags:
  assumes "addSuccess h self c s = Returned s1"
    and "addFailure h self c err s = Returned s2"
    and "addError h self c err s = Returned s3"
  shows "\<exists>taken tid cls name taken_text started_text ended_text b1 b2 b3.
           time_taken c = Inr taken \<and> test_id c = Inr tid \<and>
           quoted_class h tid = Inr cls \<and> quoted_name h tid = Inr name \<and>
           format_3f h taken = Inr taken_text \<and>
           strftime_xX h (started_at self c) = Inr started_text \<and>
           strftime_xX h (time_add h (started_at self c) taken) = Inr ended_text \<and>
           errorlist s1 = errorlist s @
             [testcase_open cls name taken_text started_text ended_text @ b1] \<and>
           errorlist s2 = errorlist s @
             [testcase_open cls name taken_text started_text ended_text @ b2] \<and>
           errorlist s3 = errorlist s @
             [testcase_open cls name taken_text started_text ended_text @ b3]"
proof -
  from addSuccess_ReturnedD [OF assms(1)] obtain taken x1 where
    t: "time_taken c = Inr taken" and f1: "success_fragment h self c taken = Inr x1"
    and e1: "errorlist s1 = errorlist s @ [x1]"
    by auto
  from addFailure_ReturnedD [OF assms(2)] t obtain tb x2 where
    f2: "failure_fragment h self c err taken tb = Inr x2"
    and e2: "errorlist s2 = errorlist s @ [x2]"
    by auto
  from addError_ReturnedD [OF assms(3)] t obtain ty x3 where
    f3: "error_fragment h self c err ty taken = Inr x3"
    and e3: "errorlist s3 = errorlist s @ [x3]"
    by auto
  from success_fragment_open [OF f1] obtain tid cls name taken_text started_text ended_text b1
    where p: "test_id c = Inr tid" "quoted_class h tid = Inr cls"
      "quoted_name h tid = Inr name" "format_3f h taken = Inr taken_text"
      "strftime_xX h (started_at self c) = Inr started_text"
      "strftime_xX h (time_add h (started_at self c) taken) = Inr ended_text"
    and x1: "x1 = testcase_open cls name taken_text started_text ended_text @ b1"
    by blast
  from failure_fragment_open [OF f2] p obtain b2
    where x2: "x2 = testcase_open cls name taken_text started_text ended_text @ b2"
    by auto
  from error_fragment_open [OF f3] p obtain b3
    where x3: "x3 = testcase_open cls name taken_text started_text ended_text @ b3"
    by auto
  from t p e1 e2 e3 x1 x2 x3 show ?thesis
    by blast
qed

text \<open>The sample helpers on the sample call.\<close>

lemma sample_digits:
  "show_nat 2 = ''2''" "show_nat 2026 = ''2026''"
  "two_digits 0 = ''00''" "two_digits 4 = ''04''" "two_digits 11 = ''11''"
  "two_digits 26 = ''26''" "two_digits 40 = ''40''" "two_digits 42 = ''42''"
  by (simp_all add: show_nat.simps two_digits_def digit_char_def)

lemma sample_values:
  "time_taken sample_call = Inr 2"
  "test_id sample_call = Inr ''suite.Case.test_a''"
  "quoted_class sample_helpers ''suite.Case.test_a'' = Inr ''\"suite.Case\"''"
  "quoted_name sample_helpers ''suite.Case.test_a'' = Inr ''\"test_a\"''"
  "format_3f sample_helpers 2 = Inr ''2.000''"
  "started_at sample_plugin sample_call = 40"
  "time_add sample_helpers 40 2 = 42"
  "strftime_xX sample_helpers 40 = Inr ''11/04/26 00:00:40''"
  "strftime_xX sample_helpers 42 = Inr ''11/04/26 00:00:42''"
  "captured_stdout sample_call = Inr ''<system-out>hi</system-out>''"
  "captured_stderr sample_call = Inr []"
  "format_exception sample_helpers e (encoding sample_plugin) = Inr ''line1''"
  "escape_cdata sample_helpers ''line1'' = Inr ''line1''"
  "quoted_message sample_helpers e = Inr ''\"boom\"''"
  by (simp_all add: sample_call_def sample_plugin_def sample_helpers_def quoted_class_def
      quoted_name_def quoted_message_def sample_id_split_def before_last_dot_def
      after_last_dot_def started_at_def strftime_xX_def sample_fromtimestamp_def c_locale_def
      sample_digits Let_def)

lemma sample_success_fragment:
  "success_fragment sample_helpers sample_plugin sample_call 2 =
     Inr (''<testcase classname=\"suite.Case\" name=\"test_a\" time=\"2.000\" '' @
          ''started=\"11/04/26 00:00:40\" ended=\"11/04/26 00:00:42\">'' @
          ''<system-out>hi</system-out></testcase>'')"
  by (simp add: success_fragment_def sample_values testcase_open_def Let_def)


section \<open>Properties of the outcome handlers\<close>

text \<open>
  C3. When the calls that \<open>addError\<close> makes return: an error whose exception class is a
  subclass of \<open>SkipTest\<close> adds one to \<open>skipped\<close>, leaves \<open>errors\<close> as it is and appends a
  fragment whose element, between the opening tag and the captured output, is \<open>skipped\<close>;
  any other error adds one to \<open>errors\<close> and appends a fragment whose element is \<open>error\<close>.
  Exactly one fragment is appended in both cases.
\<close>

theorem addError_classifies:
  assumes "time_taken c = Inr taken"
    and "is_SkipTest h skip = Inr True"
    and "is_SkipTest h other = Inr False"
    and "stats s ''skipped'' = Some (PInt k)"
    and "stats s ''errors'' = Some (PInt e)"
    and "test_id c = Inr tid"
    and "quoted_class h tid = Inr cls"
    and "quoted_name h tid = Inr name"
    and "format_3f h taken = Inr taken_text"
    and "strftime_xX h (started_at self c) = Inr started_text"
    and "strftime_xX h (time_add h (started_at self c) taken) = Inr ended_text"
    and "captured_stdout c = Inr systemout"
    and "captured_stderr c = Inr systemerr"
    and "format_exception h skip (encoding self) = Inr tb"
    and "escape_cdata h tb = Inr cdata"
    and "quoted_errtype h skip = Inr errtype"
    and "quoted_message h skip = Inr message"
    and "format_exception h other (encoding self) = Inr tb'"
    and "escape_cdata h tb' = Inr cdata'"
    and "quoted_errtype h other = Inr errtype'"
    and "quoted_message h other = Inr message'"
  shows \<open>addError h self c skip s =
           Returned \<lparr>errorlist = errorlist s @
                  [testcase_open cls name taken_text started_text ended_text @
                   ''<skipped type='' @ errtype @ '' message='' @ message @
                   ''><![CDATA['' @ cdata @ '']]></skipped>'' @
                   systemout @ systemerr @ ''</testcase>''],
                 stats = (stats s)(''skipped'' \<mapsto> PInt (k + 1))\<rparr>
         \<and> ((stats s)(''skipped'' \<mapsto> PInt (k + 1))) ''errors'' = stats s ''errors''
         \<and> addError h self c other s =
           Returned \<lparr>errorlist = errorlist s @
                  [testcase_open cls name taken_text started_text ended_text @
                   ''<error type='' @ errtype' @ '' message='' @ message' @
                   ''><![CDATA['' @ cdata' @ '']]></error>'' @
                   systemout @ systemerr @ ''</testcase>''],
                 stats = (stats s)(''errors'' \<mapsto> PInt (e + 1))\<rparr>\<close>
  using assms
  by (simp add: addError_def stats_incr_int append_fragment_def errorlist_append_def
      error_fragment_def Let_def)

theorem addError_classifies_witness:
  \<open>time_taken sample_call = Inr 2
   \<and> is_SkipTest sample_helpers ''SkipTest'' = Inr True
   \<and> is_SkipTest sample_helpers ''ValueError'' = Inr False
   \<and> stats initial_shared ''skipped'' = Some (PInt 0)
   \<and> stats initial_shared ''errors'' = Some (PInt 0)
   \<and> test_id sample_call = Inr ''suite.Case.test_a''
   \<and> quoted_class sample_helpers ''suite.Case.test_a'' = Inr ''"suite.Case"''
   \<and> quoted_name sample_helpers ''suite.Case.test_a'' = Inr ''"test_a"''
   \<and> format_3f sample_helpers 2 = Inr ''2.000''
   \<and> strftime_xX sample_helpers (started_at sample_plugin sample_call) =
       Inr ''11/04/26 00:00:40''
   \<and> strftime_xX sample_helpers
        (time_add sample_helpers (started_at sample_plugin sample_call) 2) =
       Inr ''11/04/26 00:00:42''
   \<and> captured_stdout sample_call = Inr ''<system-out>hi</system-out>''
   \<and> captured_stderr sample_call = Inr []
   \<and> format_exception sample_helpers ''SkipTest'' (encoding sample_plugin) = Inr ''line1''
   \<and> escape_cdata sample_helpers ''line1'' = Inr ''line1''
   \<and> quoted_errtype sample_helpers ''SkipTest'' = Inr ''"SkipTest"''
   \<and> quoted_message sample_helpers ''SkipTest'' = Inr ''"boom"''
   \<and> format_exception sample_helpers ''ValueError'' (encoding sample_plugin) = Inr ''line1''
   \<and> quoted_errtype sample_helpers ''ValueError'' = Inr ''"ValueError"''
   \<and> quoted_message sample_helpers ''ValueError'' = Inr ''"boom"''
   \<and> addError sample_helpers sample_plugin sample_call ''SkipTest'' initial_shared =
       Returned \<lparr>errorlist =
              [''<testcase classname="suite.Case" name="test_a" time="2.000" '' @
               ''started="11/04/26 00:00:40" ended="11/04/26 00:00:42">'' @
               ''<skipped type="SkipTest" message="boom"><![CDATA[line1]]></skipped>'' @
               ''<system-out>hi</system-out></testcase>''],
            stats = initial_stats(''skipped'' \<mapsto> PInt 1)\<rparr>
   \<and> addError sample_helpers sample_plugin sample_call ''ValueError'' initial_shared =
       Returned \<lparr>errorlist =
              [''<testcase classname="suite.Case" name="test_a" time="2.000" '' @
               ''started="11/04/26 00:00:40" ended="11/04/26 00:00:42">'' @
               ''<error type="ValueError" message="boom"><![CDATA[line1]]></error>'' @
               ''<system-out>hi</system-out></testcase>''],
            stats = initial_stats(''errors'' \<mapsto> PInt 1)\<rparr>\<close>
proof -
  have h2: "is_SkipTest sample_helpers ''SkipTest'' = Inr True"
    and h3: "is_SkipTest sample_helpers ''ValueError'' = Inr False"
    by (simp_all add: sample_helpers_def)
  have h4: "stats initial_shared ''skipped'' = Some (PInt 0)"
    and h5: "stats initial_shared ''errors'' = Some (PInt 0)"
    by (simp_all add: initial_shared_def initial_stats_values)
  have h10: "strftime_xX sample_helpers (started_at sample_plugin sample_call) =
      Inr ''11/04/26 00:00:40''"
    and h11: "strftime_xX sample_helpers
        (time_add sample_helpers (started_at sample_plugin sample_call) 2) =
      Inr ''11/04/26 00:00:42''"
    by (simp_all add: sample_values)
  have h16: "quoted_errtype sample_helpers ''SkipTest'' = Inr ''\"SkipTest\"''"
    and h20: "quoted_errtype sample_helpers ''ValueError'' = Inr ''\"ValueError\"''"
    by (simp_all add: quoted_errtype_def sample_helpers_def)
  note r = addError_classifies [OF sample_values(1) h2 h3 h4 h5 sample_values(2,3,4,5) h10 h11
      sample_values(10,11) sample_values(12) [of "''SkipTest''"] sample_values(13) h16
      sample_values(14) [of "''SkipTest''"] sample_values(12) [of "''ValueError''"]
      sample_values(13) h20 sample_values(14) [of "''ValueError''"]]
  have "addError sample_helpers sample_plugin sample_call ''SkipTest'' initial_shared =
       Returned \<lparr>errorlist =
              [''<testcase classname=\"suite.Case\" name=\"test_a\" time=\"2.000\" '' @
               ''started=\"11/04/26 00:00:40\" ended=\"11/04/26 00:00:42\">'' @
               ''<skipped type=\"SkipTest\" message=\"boom\"><![CDATA[line1]]></skipped>'' @
               ''<system-out>hi</system-out></testcase>''],
            stats = initial_stats(''skipped'' \<mapsto> PInt 1)\<rparr>
   \<and> addError sample_helpers sample_plugin sample_call ''ValueError'' initial_shared =
       Returned \<lparr>errorlist =
              [''<testcase classname=\"suite.Case\" name=\"test_a\" time=\"2.000\" '' @
               ''started=\"11/04/26 00:00:40\" ended=\"11/04/26 00:00:42\">'' @
               ''<error type=\"ValueError\" message=\"boom\"><![CDATA[line1]]></error>'' @
               ''<system-out>hi</system-out></testcase>''],
            stats = initial_stats(''errors'' \<mapsto> PInt 1)\<rparr>"
    using r by (simp add: testcase_open_def initial_shared_def)
  with sample_values(1,2,3,4,5,10,11,13) sample_values(12) [of "''SkipTest''"]
    sample_values(12) [of "''ValueError''"] sample_values(14) [of "''SkipTest''"]
    sample_values(14) [of "''ValueError''"] h2 h3 h4 h5 h10 h11 h16 h20
  show ?thesis
    by blast
qed

text \<open>
  C6. In each of the three handlers, the start of the test is the recorded timer, or the
  current time when no timer was recorded, and the fragment renders this start as
  \<open>started\<close> and the start plus the time taken as \<open>ended\<close>.
\<close>

theorem handlers_started_ended:
  assumes "addSuccess h self c s = Returned s1"
    and "addFailure h self c err s = Returned s2"
    and "addError h self c err s = Returned s3"
    and "start = (case timer self of None \<Rightarrow> time_now c | Some t \<Rightarrow> t)"
  shows \<open>\<exists>taken tid cls name taken_text started_text ended_text.
           time_taken c = Inr taken \<and> test_id c = Inr tid \<and>
           quoted_class h tid = Inr cls \<and> quoted_name h tid = Inr name \<and>
           format_3f h taken = Inr taken_text \<and>
           strftime_xX h start = Inr started_text \<and>
           strftime_xX h (time_add h start taken) = Inr ended_text \<and>
           (\<forall>s' \<in> {s1, s2, s3}. \<exists>body.
              errorlist s' = errorlist s @
                [''<testcase classname='' @ cls @ '' name='' @ name @
                 '' time="'' @ taken_text @
                 ''" started="'' @ started_text @
                 ''" ended="'' @ ended_text @ ''">'' @ body])\<close>
proof -
  have st: "started_at self c = start"
    using assms(4) by (simp add: started_at_def split: option.splits)
  from handlers_open_tags [OF assms(1-3)] show ?thesis
    unfolding st testcase_open_def by fastforce
qed

theorem handlers_started_ended_witness:
  \<open>addSuccess sample_helpers sample_plugin sample_call initial_shared =
     Returned \<lparr>errorlist =
        [''<testcase classname="suite.Case" name="test_a" time="2.000" '' @
         ''started="11/04/26 00:00:40" ended="11/04/26 00:00:42">'' @
         ''<system-out>hi</system-out></testcase>''],
       stats = initial_stats(''passes'' \<mapsto> PInt 1)\<rparr>
   \<and> addFailure sample_helpers sample_plugin sample_call ''AssertionError'' initial_shared =
     Returned \<lparr>errorlist =
        [''<testcase classname="suite.Case" name="test_a" time="2.000" '' @
         ''started="11/04/26 00:00:40" ended="11/04/26 00:00:42">'' @
         ''<failure type="AssertionError" message="boom"><![CDATA[line1]]></failure>'' @
         ''<system-out>hi</system-out></testcase>''],
       stats = initial_stats(''failures'' \<mapsto> PInt 1)\<rparr>
   \<and> addError sample_helpers sample_plugin sample_call ''AssertionError'' initial_shared =
     Returned \<lparr>errorlist =
        [''<testcase classname="suite.Case" name="test_a" time="2.000" '' @
         ''started="11/04/26 00:00:40" ended="11/04/26 00:00:42">'' @
         ''<error type="AssertionError" message="boom"><![CDATA[line1]]></error>'' @
         ''<system-out>hi</system-out></testcase>''],
       stats = initial_stats(''errors'' \<mapsto> PInt 1)\<rparr>
   \<and> timer sample_plugin = None
   \<and> (40::nat) = (case timer sample_plugin of None \<Rightarrow> time_now sample_call | Some t \<Rightarrow> t)
   \<and> (\<exists>taken tid cls name taken_text started_text ended_text.
           time_taken sample_call = Inr taken \<and> test_id sample_call = Inr tid \<and>
           quoted_class sample_helpers tid = Inr cls \<and>
           quoted_name sample_helpers tid = Inr name \<and>
           format_3f sample_helpers taken = Inr taken_text \<and>
           strftime_xX sample_helpers 40 = Inr started_text \<and>
           strftime_xX sample_helpers (time_add sample_helpers 40 taken) = Inr ended_text \<and>
           taken = 2 \<and> started_text = ''11/04/26 00:00:40'' \<and>
           ended_text = ''11/04/26 00:00:42'')\<close>
proof -
  have q: "quoted_errtype sample_helpers ''AssertionError'' = Inr ''\"AssertionError\"''"
    "is_SkipTest sample_helpers ''AssertionError'' = Inr False"
    by (simp_all add: quoted_errtype_def sample_helpers_def)
  have h1: "addSuccess sample_helpers sample_plugin sample_call initial_shared =
     Returned \<lparr>errorlist =
        [''<testcase classname=\"suite.Case\" name=\"test_a\" time=\"2.000\" '' @
         ''started=\"11/04/26 00:00:40\" ended=\"11/04/26 00:00:42\">'' @
         ''<system-out>hi</system-out></testcase>''],
       stats = initial_stats(''passes'' \<mapsto> PInt 1)\<rparr>"
    by (simp add: addSuccess_def sample_values stats_incr_int initial_shared_def
        initial_stats_values append_fragment_def errorlist_append_def sample_success_fragment)
  have h2: "addFailure sample_helpers sample_plugin sample_call ''AssertionError''
       initial_shared =
     Returned \<lparr>errorlist =
        [''<testcase classname=\"suite.Case\" name=\"test_a\" time=\"2.000\" '' @
         ''started=\"11/04/26 00:00:40\" ended=\"11/04/26 00:00:42\">'' @
         ''<failure type=\"AssertionError\" message=\"boom\"><![CDATA[line1]]></failure>'' @
         ''<system-out>hi</system-out></testcase>''],
       stats = initial_stats(''failures'' \<mapsto> PInt 1)\<rparr>"
    by (simp add: addFailure_def failure_fragment_def sample_values q stats_incr_int
        initial_shared_def initial_stats_values append_fragment_def errorlist_append_def
        testcase_open_def Let_def)
  have h3: "addError sample_helpers sample_plugin sample_call ''AssertionError''
       initial_shared =
     Returned \<lparr>errorlist =
        [''<testcase classname=\"suite.Case\" name=\"test_a\" time=\"2.000\" '' @
         ''started=\"11/04/26 00:00:40\" ended=\"11/04/26 00:00:42\">'' @
         ''<error type=\"AssertionError\" message=\"boom\"><![CDATA[line1]]></error>'' @
         ''<system-out>hi</system-out></testcase>''],
       stats = initial_stats(''errors'' \<mapsto> PInt 1)\<rparr>"
    by (simp add: addError_def error_fragment_def sample_values q stats_incr_int
        initial_shared_def initial_stats_values append_fragment_def errorlist_append_def
        testcase_open_def Let_def)
  have t: "timer sample_plugin = None"
    by (simp add: sample_plugin_def)
  have h4: "(40::nat) = (case timer sample_plugin of None \<Rightarrow> time_now sample_call | Some t \<Rightarrow> t)"
    by (simp add: sample_plugin_def sample_call_def)
  from handlers_started_ended [OF h1 h2 h3 h4]
  have "\<exists>taken tid cls name taken_text started_text ended_text.
           time_taken sample_call = Inr taken \<and> test_id sample_call = Inr tid \<and>
           quoted_class sample_helpers tid = Inr cls \<and>
           quoted_name sample_helpers tid = Inr name \<and>
           format_3f sample_helpers taken = Inr taken_text \<and>
           strftime_xX sample_helpers 40 = Inr started_text \<and>
           strftime_xX sample_helpers (time_add sample_helpers 40 taken) = Inr ended_text \<and>
           taken = 2 \<and> started_text = ''11/04/26 00:00:40'' \<and>
           ended_text = ''11/04/26 00:00:42''"
    by (auto simp add: sample_values)
  with h1 h2 h3 t h4 show ?thesis
    by blast
qed

text \<open>
  C7, as amended. In each of the three handlers, \<open>started\<close> and \<open>ended\<close> are rendered by
  the same call with the same format: the local date and time of the timestamp, written
  as the date representation of the locale of the process, a space, and its time
  representation. In the C locale this is month, day and two-digit year with slashes, then
  hours, minutes and seconds with colons, and nothing below the second. The text depends
  on the locale.
\<close>

theorem handlers_render_locale_time:
  assumes "addSuccess h self c s = Returned s1"
    and "addFailure h self c err s = Returned s2"
    and "addError h self c err s = Returned s3"
    and "start = (case timer self of None \<Rightarrow> time_now c | Some t \<Rightarrow> t)"
  shows \<open>\<exists>taken tid cls name taken_text d_start d_end.
           time_taken c = Inr taken \<and> test_id c = Inr tid \<and>
           quoted_class h tid = Inr cls \<and> quoted_name h tid = Inr name \<and>
           format_3f h taken = Inr taken_text \<and>
           fromtimestamp h start = Inr d_start \<and>
           fromtimestamp h (time_add h start taken) = Inr d_end \<and>
           (\<forall>s' \<in> {s1, s2, s3}. \<exists>body.
              errorlist s' = errorlist s @
                [''<testcase classname='' @ cls @ '' name='' @ name @
                 '' time="'' @ taken_text @
                 ''" started="'' @
                 date_repr (lc_time h) d_start @ '' '' @ time_repr (lc_time h) d_start @
                 ''" ended="'' @
                 date_repr (lc_time h) d_end @ '' '' @ time_repr (lc_time h) d_end @
                 ''">'' @ body]) \<and>
           (lc_time h = c_locale \<longrightarrow>
              (\<forall>d \<in> {d_start, d_end}.
                 date_repr (lc_time h) d @ '' '' @ time_repr (lc_time h) d =
                   two_digits (dt_month d) @ ''/'' @ two_digits (dt_day d) @ ''/'' @
                   two_digits (dt_year d mod 100) @ '' '' @
                   two_digits (dt_hour d) @ '':'' @ two_digits (dt_minute d) @ '':'' @
                   two_digits (dt_second d)))\<close>
proof -
  have st: "started_at self c = start"
    using assms(4) by (simp add: started_at_def split: option.splits)
  from handlers_open_tags [OF assms(1-3)] obtain taken tid cls name taken_text started_text
      ended_text b1 b2 b3
    where p: "time_taken c = Inr taken" "test_id c = Inr tid" "quoted_class h tid = Inr cls"
      "quoted_name h tid = Inr name" "format_3f h taken = Inr taken_text"
    and s: "strftime_xX h start = Inr started_text"
    and e: "strftime_xX h (time_add h start taken) = Inr ended_text"
    and l: "errorlist s1 = errorlist s @
        [testcase_open cls name taken_text started_text ended_text @ b1]"
      "errorlist s2 = errorlist s @
        [testcase_open cls name taken_text started_text ended_text @ b2]"
      "errorlist s3 = errorlist s @
        [testcase_open cls name taken_text started_text ended_text @ b3]"
    unfolding st by blast
  from strftime_xX_InrD [OF s] obtain d_start where ds: "fromtimestamp h start = Inr d_start"
    and s': "started_text = date_repr (lc_time h) d_start @ '' '' @ time_repr (lc_time h) d_start"
    by blast
  from strftime_xX_InrD [OF e] obtain d_end
    where de: "fromtimestamp h (time_add h start taken) = Inr d_end"
    and e': "ended_text = date_repr (lc_time h) d_end @ '' '' @ time_repr (lc_time h) d_end"
    by blast
  have c: "lc_time h = c_locale \<longrightarrow>
      (\<forall>d \<in> {d_start, d_end}.
         date_repr (lc_time h) d @ '' '' @ time_repr (lc_time h) d =
           two_digits (dt_month d) @ ''/'' @ two_digits (dt_day d) @ ''/'' @
           two_digits (dt_year d mod 100) @ '' '' @
           two_digits (dt_hour d) @ '':'' @ two_digits (dt_minute d) @ '':'' @
           two_digits (dt_second d))"
    by (simp add: c_locale_def)
  have b: "\<forall>s' \<in> {s1, s2, s3}. \<exists>body.
      errorlist s' = errorlist s @
        [''<testcase classname='' @ cls @ '' name='' @ name @
         '' time=\"'' @ taken_text @
         ''\" started=\"'' @
         date_repr (lc_time h) d_start @ '' '' @ time_repr (lc_time h) d_start @
         ''\" ended=\"'' @
         date_repr (lc_time h) d_end @ '' '' @ time_repr (lc_time h) d_end @
         ''\">'' @ body]"
    using l unfolding s' e' testcase_open_def by simp
  from p ds de b c show ?thesis
    by blast
qed

theorem handlers_render_locale_time_witness:
  \<open>addSuccess sample_helpers sample_plugin sample_call initial_shared =
     Returned \<lparr>errorlist =
        [''<testcase classname="suite.Case" name="test_a" time="2.000" '' @
         ''started="11/04/26 00:00:40" ended="11/04/26 00:00:42">'' @
         ''<system-out>hi</system-out></testcase>''],
       stats = initial_stats(''passes'' \<mapsto> PInt 1)\<rparr>
   \<and> addFailure sample_helpers sample_plugin sample_call ''AssertionError'' initial_shared =
     Returned \<lparr>errorlist =
        [''<testcase classname="suite.Case" name="test_a" time="2.000" '' @
         ''started="11/04/26 00:00:40" ended="11/04/26 00:00:42">'' @
         ''<failure type="AssertionError" message="boom"><![CDATA[line1]]></failure>'' @
         ''<system-out>hi</system-out></testcase>''],
       stats = initial_stats(''failures'' \<mapsto> PInt 1)\<rparr>
   \<and> addError sample_helpers sample_plugin sample_call ''AssertionError'' initial_shared =
     Returned \<lparr>errorlist =
        [''<testcase classname="suite.Case" name="test_a" time="2.000" '' @
         ''started="11/04/26 00:00:40" ended="11/04/26 00:00:42">'' @
         ''<error type="AssertionError" message="boom"><![CDATA[line1]]></error>'' @
         ''<system-out>hi</system-out></testcase>''],
       stats = initial_stats(''errors'' \<mapsto> PInt 1)\<rparr>
   \<and> (40::nat) = (case timer sample_plugin of None \<Rightarrow> time_now sample_call | Some t \<Rightarrow> t)
   \<and> lc_time sample_helpers = c_locale
   \<and> (\<exists>d_start d_end.
         fromtimestamp sample_helpers 40 = Inr d_start \<and>
         fromtimestamp sample_helpers 42 = Inr d_end \<and>
         date_repr (lc_time sample_helpers) d_start @ '' '' @
           time_repr (lc_time sample_helpers) d_start = ''11/04/26 00:00:40'' \<and>
         date_repr (lc_time sample_helpers) d_end @ '' '' @
           time_repr (lc_time sample_helpers) d_end = ''11/04/26 00:00:42'')\<close>
proof -
  have q: "quoted_errtype sample_helpers ''AssertionError'' = Inr ''\"AssertionError\"''"
    "is_SkipTest sample_helpers ''AssertionError'' = Inr False"
    by (simp_all add: quoted_errtype_def sample_helpers_def)
  have h1: "addSuccess sample_helpers sample_plugin sample_call initial_shared =
     Returned \<lparr>errorlist =
        [''<testcase classname=\"suite.Case\" name=\"test_a\" time=\"2.000\" '' @
         ''started=\"11/04/26 00:00:40\" ended=\"11/04/26 00:00:42\">'' @
         ''<system-out>hi</system-out></testcase>''],
       stats = initial_stats(''passes'' \<mapsto> PInt 1)\<rparr>"
    by (simp add: addSuccess_def sample_values stats_incr_int initial_shared_def
        initial_stats_values append_fragment_def errorlist_append_def sample_success_fragment)
  have h2: "addFailure sample_helpers sample_plugin sample_call ''AssertionError''
       initial_shared =
     Returned \<lparr>errorlist =
        [''<testcase classname=\"suite.Case\" name=\"test_a\" time=\"2.000\" '' @
         ''started=\"11/04/26 00:00:40\" ended=\"11/04/26 00:00:42\">'' @
         ''<failure type=\"AssertionError\" message=\"boom\"><![CDATA[line1]]></failure>'' @
         ''<system-out>hi</system-out></testcase>''],
       stats = initial_stats(''failures'' \<mapsto> PInt 1)\<rparr>"
    by (simp add: addFailure_def failure_fragment_def sample_values q stats_incr_int
        initial_shared_def initial_stats_values append_fragment_def errorlist_append_def
        testcase_open_def Let_def)
  have h3: "addError sample_helpers sample_plugin sample_call ''AssertionError''
       initial_shared =
     Returned \<lparr>errorlist =
        [''<testcase classname=\"suite.Case\" name=\"test_a\" time=\"2.000\" '' @
         ''started=\"11/04/26 00:00:40\" ended=\"11/04/26 00:00:42\">'' @
         ''<error type=\"AssertionError\" message=\"boom\"><![CDATA[line1]]></error>'' @
         ''<system-out>hi</system-out></testcase>''],
       stats = initial_stats(''errors'' \<mapsto> PInt 1)\<rparr>"
    by (simp add: addError_def error_fragment_def sample_values q stats_incr_int
        initial_shared_def initial_stats_values append_fragment_def errorlist_append_def
        testcase_open_def Let_def)
  have h4: "(40::nat) = (case timer sample_plugin of None \<Rightarrow> time_now sample_call | Some t \<Rightarrow> t)"
    by (simp add: sample_plugin_def sample_call_def)
  have lc: "lc_time sample_helpers = c_locale"
    by (simp add: sample_helpers_def)
  have ft: "fromtimestamp sample_helpers 40 =
      Inr \<lparr>dt_year = 2026, dt_month = 11, dt_day = 4, dt_hour = 0, dt_minute = 0,
           dt_second = 40, dt_microsecond = 0\<rparr>"
    "fromtimestamp sample_helpers 42 =
      Inr \<lparr>dt_year = 2026, dt_month = 11, dt_day = 4, dt_hour = 0, dt_minute = 0,
           dt_second = 42, dt_microsecond = 0\<rparr>"
    by (simp_all add: sample_helpers_def sample_fromtimestamp_def)
  from handlers_render_locale_time [OF h1 h2 h3 h4]
  have "\<exists>d_start d_end.
         fromtimestamp sample_helpers 40 = Inr d_start \<and>
         fromtimestamp sample_helpers 42 = Inr d_end \<and>
         date_repr (lc_time sample_helpers) d_start @ '' '' @
           time_repr (lc_time sample_helpers) d_start = ''11/04/26 00:00:40'' \<and>
         date_repr (lc_time sample_helpers) d_end @ '' '' @
           time_repr (lc_time sample_helpers) d_end = ''11/04/26 00:00:42''"
    by (auto simp add: sample_values ft lc sample_digits)
  with h1 h2 h3 h4 lc show ?thesis
    by blast
qed

text \<open>
  The same timestamp in two processes that differ only in their locale: the rendered text,
  and with it the fragment of the same outcome, is not the same.
\<close>

theorem rendering_depends_on_locale_counterexample:
  \<open>strftime_xX sample_helpers 40 = Inr ''11/04/26 00:00:40''
   \<and> strftime_xX (sample_helpers\<lparr>lc_time := sample_de_locale\<rparr>) 40 =
       Inr ''04.11.2026 00:00:40''
   \<and> success_fragment sample_helpers sample_plugin sample_call 2 =
       Inr (''<testcase classname="suite.Case" name="test_a" time="2.000" '' @
            ''started="11/04/26 00:00:40" ended="11/04/26 00:00:42">'' @
            ''<system-out>hi</system-out></testcase>'')
   \<and> success_fragment (sample_helpers\<lparr>lc_time := sample_de_locale\<rparr>) sample_plugin
        sample_call 2 =
       Inr (''<testcase classname="suite.Case" name="test_a" time="2.000" '' @
            ''started="04.11.2026 00:00:40" ended="04.11.2026 00:00:42">'' @
            ''<system-out>hi</system-out></testcase>'')\<close>
proof -
  have de: "strftime_xX (sample_helpers\<lparr>lc_time := sample_de_locale\<rparr>) 40 =
       Inr ''04.11.2026 00:00:40''"
    "strftime_xX (sample_helpers\<lparr>lc_time := sample_de_locale\<rparr>) 42 =
       Inr ''04.11.2026 00:00:42''"
    by (simp_all add: strftime_xX_def sample_helpers_def sample_fromtimestamp_def
        sample_de_locale_def sample_digits)
  have v: "quoted_class (sample_helpers\<lparr>lc_time := sample_de_locale\<rparr>) =
       quoted_class sample_helpers"
    "quoted_name (sample_helpers\<lparr>lc_time := sample_de_locale\<rparr>) = quoted_name sample_helpers"
    by (simp_all add: fun_eq_iff quoted_class_def quoted_name_def)
  have "success_fragment (sample_helpers\<lparr>lc_time := sample_de_locale\<rparr>) sample_plugin
        sample_call 2 =
       Inr (''<testcase classname=\"suite.Case\" name=\"test_a\" time=\"2.000\" '' @
            ''started=\"04.11.2026 00:00:40\" ended=\"04.11.2026 00:00:42\">'' @
            ''<system-out>hi</system-out></testcase>'')"
    by (simp add: success_fragment_def sample_values v de testcase_open_def Let_def)
  with de(1) sample_values(8) sample_success_fragment show ?thesis
    by simp
qed


section \<open>Properties of the report\<close>

lemma encode_Replace:
  "cd CHR ''?'' = Some q \<Longrightarrow> encode cd Replace xs = Inr (replaced cd q xs)"
  by (induction xs) (simp_all add: replaced_def encode_char_def split: option.splits)

lemma encode_Strict_raises:
  "c \<in> set xs \<Longrightarrow> cd c = None \<Longrightarrow> encode cd Strict xs = Inl UnicodeEncodeError"
proof (induction xs)
  case Nil
  then show ?case by simp
next
  case (Cons x xs)
  show ?case
  proof (cases "cd x")
    case None
    then show ?thesis by (simp add: encode_char_def)
  next
    case (Some bs)
    with Cons have "encode cd Strict xs = Inl UnicodeEncodeError" by auto
    with Some show ?thesis by (simp add: encode_char_def)
  qed
qed

lemma replaced_append: "replaced cd q (a @ b) = replaced cd q a @ replaced cd q b"
  by (simp add: replaced_def)

lemma replaced_concat: "replaced cd q (concat xss) = concat (map (replaced cd q) xss)"
  by (induction xss) (simp_all add: replaced_def)

lemma sw_write_Replace:
  "sw_errors f = Replace \<Longrightarrow> sw_codec f CHR ''?'' = Some q \<Longrightarrow>
   sw_write f xs = Inr (f\<lparr>sw_data := sw_data f @ replaced (sw_codec f) q xs\<rparr>)"
  by (simp add: sw_write_def encode_Replace)

lemma stats_total_ints:
  assumes "stats s ''errors'' = Some (PInt e)" and "stats s ''failures'' = Some (PInt f)"
    and "stats s ''passes'' = Some (PInt p)" and "stats s ''skipped'' = Some (PInt k)"
  shows "stats_total s = Inr (PInt (e + f + p + k))"
  using assms by (simp add: stats_total_def stats_get_def getitem_def)

lemma report_header_ints:
  assumes "d ''encoding'' = Some (PStr enc)" and "d ''total'' = Some (PInt t)"
    and "d ''errors'' = Some (PInt e)" and "d ''failures'' = Some (PInt f)"
    and "d ''skipped'' = Some (PInt k)"
  shows \<open>report_header d =
     Inr (''<?xml version="1.0" encoding="'' @ enc @ ''"?>'' @
          ''<testsuite name="nosetests" tests="'' @ show_int t @
          ''" errors="'' @ show_int e @ ''" failures="'' @ show_int f @
          ''" skip="'' @ show_int k @ ''">'')\<close>
  using assms by (simp add: report_header_def format_key_d_def format_key_s_def getitem_def)

lemma map_force_unicode: "map force_unicode xs = xs"
  by (induction xs) (simp_all add: force_unicode_def)

text \<open>
  What \<open>report\<close> returns when the file can be opened, the codec represents the question
  mark and the four counters are integers.
\<close>

lemma report_result:
  assumes "error_report_filename self = Some path" and "writable (w_fs w) path"
    and "reg (encoding self) = Some cd" and "cd CHR ''?'' = Some q"
    and "plugin_config self = Some cfg"
    and "stats (w_shared w) ''errors'' = Some (PInt e)"
    and "stats (w_shared w) ''failures'' = Some (PInt f)"
    and "stats (w_shared w) ''passes'' = Some (PInt p)"
    and "stats (w_shared w) ''skipped'' = Some (PInt k)"
  shows \<open>report reg self w =
     Inr \<lparr>w_fs = (w_fs w)\<lparr>files := (files (w_fs w))(path \<mapsto>
             replaced cd q
               (''<?xml version="1.0" encoding="'' @ encoding self @ ''"?>'' @
                ''<testsuite name="nosetests" tests="'' @ show_int (e + f + p + k) @
                ''" errors="'' @ show_int e @ ''" failures="'' @ show_int f @
                ''" skip="'' @ show_int k @ ''">'' @
                concat (errorlist (w_shared w)) @ ''</testsuite>''))\<rparr>,
          w_shared = (w_shared w)\<lparr>stats := (stats (w_shared w))
             (''encoding'' \<mapsto> PStr (encoding self), ''total'' \<mapsto> PInt (e + f + p + k))\<rparr>,
          w_stream = (if verbosity cfg > 1
                      then w_stream w @ [replicate 70 CHR ''-'', ''XML: '' @ path]
                      else w_stream w)\<rparr>\<close>
proof -
  let ?s1 = "stats_set (w_shared w) ''encoding'' (PStr (encoding self))"
  let ?s2 = "stats_set ?s1 ''total'' (PInt (e + f + p + k))"
  have tot: "stats_total ?s1 = Inr (PInt (e + f + p + k))"
    using assms(6-9) by (intro stats_total_ints) (simp_all add: stats_set_def)
  have hdr: "report_header (stats ?s2) =
       Inr (''<?xml version=\"1.0\" encoding=\"'' @ encoding self @ ''\"?>'' @
            ''<testsuite name=\"nosetests\" tests=\"'' @ show_int (e + f + p + k) @
            ''\" errors=\"'' @ show_int e @ ''\" failures=\"'' @ show_int f @
            ''\" skip=\"'' @ show_int k @ ''\">'')"
    using assms(6-9) by (intro report_header_ints) (simp_all add: stats_set_def)
  show ?thesis
    using assms(1-5)
    apply (simp add: report_def codecs_open_def tot hdr sw_write_Replace sw_close_def Let_def)
    apply (simp add: replaced_def stats_set_def map_force_unicode)
    done
qed

text \<open>The sample state satisfies the conditions of \<open>report_result\<close>.\<close>

lemma sample_report_conditions:
  "error_report_filename sample_plugin = Some ''nosetests.xml''"
  "writable (w_fs sample_world) ''nosetests.xml''"
  "sample_registry (encoding sample_plugin) = Some utf8_codec"
  "utf8_codec CHR ''?'' = Some [63]"
  "plugin_config sample_plugin = Some sample_config"
  "stats (w_shared sample_world) ''errors'' = Some (PInt 0)"
  "stats (w_shared sample_world) ''failures'' = Some (PInt 0)"
  "stats (w_shared sample_world) ''passes'' = Some (PInt 2)"
  "stats (w_shared sample_world) ''skipped'' = Some (PInt 0)"
  by (simp_all add: sample_plugin_def sample_world_def sample_registry_def utf8_codec_def
      initial_stats_values)

lemma sample_ascii_conditions:
  "error_report_filename (sample_plugin\<lparr>encoding := ''ascii''\<rparr>) = Some ''nosetests.xml''"
  "sample_registry (encoding (sample_plugin\<lparr>encoding := ''ascii''\<rparr>)) = Some ascii_codec"
  "ascii_codec CHR ''?'' = Some [63]"
  "plugin_config (sample_plugin\<lparr>encoding := ''ascii''\<rparr>) = Some sample_config"
  by (simp_all add: sample_plugin_def sample_registry_def ascii_codec_def)

text \<open>
  C1. The file that \<open>report\<close> writes holds exactly, in the bytes of the encoding: the XML
  prologue with the encoding name; the opening \<open>testsuite\<close> tag, whose \<open>tests\<close> attribute
  is the sum of the four counters and whose \<open>errors\<close>, \<open>failures\<close> and \<open>skip\<close> attributes
  are the counters \<open>errors\<close>, \<open>failures\<close> and \<open>skipped\<close>; every fragment of the list, in
  order and unchanged; and the closing tag.
\<close>

theorem report_file_contents:
  assumes "error_report_filename self = Some path" and "writable (w_fs w) path"
    and "reg (encoding self) = Some cd" and "cd CHR ''?'' = Some q"
    and "plugin_config self = Some cfg"
    and "stats (w_shared w) ''errors'' = Some (PInt e)"
    and "stats (w_shared w) ''failures'' = Some (PInt f)"
    and "stats (w_shared w) ''passes'' = Some (PInt p)"
    and "stats (w_shared w) ''skipped'' = Some (PInt k)"
  shows \<open>\<exists>w'. report reg self w = Inr w' \<and>
           files (w_fs w') path =
             Some (replaced cd q
               (''<?xml version="1.0" encoding="'' @ encoding self @ ''"?>'' @
                ''<testsuite name="nosetests" tests="'' @ show_int (e + f + p + k) @
                ''" errors="'' @ show_int e @ ''" failures="'' @ show_int f @
                ''" skip="'' @ show_int k @ ''">'' @
                concat (errorlist (w_shared w)) @
                ''</testsuite>''))\<close>
  by (simp add: report_result [where reg = reg, OF assms])

theorem report_file_contents_witness:
  \<open>error_report_filename sample_plugin = Some ''nosetests.xml''
   \<and> writable (w_fs sample_world) ''nosetests.xml''
   \<and> sample_registry (encoding sample_plugin) = Some utf8_codec
   \<and> utf8_codec CHR ''?'' = Some [63]
   \<and> plugin_config sample_plugin = Some sample_config
   \<and> stats (w_shared sample_world) ''errors'' = Some (PInt 0)
   \<and> stats (w_shared sample_world) ''failures'' = Some (PInt 0)
   \<and> stats (w_shared sample_world) ''passes'' = Some (PInt 2)
   \<and> stats (w_shared sample_world) ''skipped'' = Some (PInt 0)
   \<and> (\<exists>w'. report sample_registry sample_plugin sample_world = Inr w' \<and>
           files (w_fs w') ''nosetests.xml'' =
             Some (replaced utf8_codec [63]
               (''<?xml version="1.0" encoding="UTF-8"?>'' @
                ''<testsuite name="nosetests" tests="2" errors="0" failures="0" skip="0">'' @
                ''<testcase/>'' @ [CHR ''<'', CHR 0xE9, CHR ''/'', CHR ''>''] @
                ''</testsuite>'')))\<close>
proof -
  have n: "show_int 0 = ''0''" "show_int 2 = ''2''"
    by (simp_all add: show_int_def show_nat.simps digit_char_def)
  from report_file_contents [where reg = sample_registry, OF sample_report_conditions]
  have "\<exists>w'. report sample_registry sample_plugin sample_world = Inr w' \<and>
           files (w_fs w') ''nosetests.xml'' =
             Some (replaced utf8_codec [63]
               (''<?xml version=\"1.0\" encoding=\"UTF-8\"?>'' @
                ''<testsuite name=\"nosetests\" tests=\"2\" errors=\"0\" failures=\"0\" skip=\"0\">'' @
                ''<testcase/>'' @ [CHR ''<'', CHR 0xE9, CHR ''/'', CHR ''>''] @
                ''</testsuite>''))"
    by (simp add: n) (simp add: sample_plugin_def sample_world_def)
  with sample_report_conditions show ?thesis
    by blast
qed

text \<open>
  C8. Whatever characters the header and the fragments contain, \<open>report\<close> does not raise
  on a character that the encoding cannot represent: the file is written to its end, and
  it holds the prologue and the opening tag, every fragment in order and the closing tag,
  with the bytes of each character that the codec represents and the bytes of a question
  mark for each character that it does not. Under \<open>'strict'\<close> a text with such a character
  raises instead.
\<close>

theorem report_replaces_unencodable:
  assumes "error_report_filename self = Some path" and "writable (w_fs w) path"
    and "reg (encoding self) = Some cd" and "cd CHR ''?'' = Some q"
    and "plugin_config self = Some cfg"
    and "stats (w_shared w) ''errors'' = Some (PInt e)"
    and "stats (w_shared w) ''failures'' = Some (PInt f)"
    and "stats (w_shared w) ''passes'' = Some (PInt p)"
    and "stats (w_shared w) ''skipped'' = Some (PInt k)"
  shows \<open>(\<exists>w'. report reg self w = Inr w' \<and>
           files (w_fs w') path =
             Some (replaced cd q
                     (''<?xml version="1.0" encoding="'' @ encoding self @ ''"?>'' @
                      ''<testsuite name="nosetests" tests="'' @ show_int (e + f + p + k) @
                      ''" errors="'' @ show_int e @ ''" failures="'' @ show_int f @
                      ''" skip="'' @ show_int k @ ''">'') @
                   concat (map (replaced cd q) (errorlist (w_shared w))) @
                   replaced cd q ''</testsuite>''))
       \<and> (\<forall>c. replaced cd q [c] = (case cd c of None \<Rightarrow> q | Some bs \<Rightarrow> bs))
       \<and> (\<forall>xs c. c \<in> set xs \<longrightarrow> cd c = None \<longrightarrow>
             encode cd Strict xs = Inl UnicodeEncodeError)\<close>
proof -
  let ?header = "''<?xml version=\"1.0\" encoding=\"'' @ encoding self @ ''\"?>'' @
                ''<testsuite name=\"nosetests\" tests=\"'' @ show_int (e + f + p + k) @
                ''\" errors=\"'' @ show_int e @ ''\" failures=\"'' @ show_int f @
                ''\" skip=\"'' @ show_int k @ ''\">''"
  have split: "replaced cd q (?header @ concat (errorlist (w_shared w)) @ ''</testsuite>'') =
        replaced cd q ?header @ concat (map (replaced cd q) (errorlist (w_shared w))) @
        replaced cd q ''</testsuite>''"
    by (simp only: replaced_append replaced_concat)
  have "report reg self w =
     Inr \<lparr>w_fs = (w_fs w)\<lparr>files := (files (w_fs w))(path \<mapsto>
             replaced cd q (?header @ concat (errorlist (w_shared w)) @ ''</testsuite>''))\<rparr>,
          w_shared = (w_shared w)\<lparr>stats := (stats (w_shared w))
             (''encoding'' \<mapsto> PStr (encoding self), ''total'' \<mapsto> PInt (e + f + p + k))\<rparr>,
          w_stream = (if verbosity cfg > 1
                      then w_stream w @ [replicate 70 CHR ''-'', ''XML: '' @ path]
                      else w_stream w)\<rparr>"
    using report_result [where reg = reg, OF assms] by simp
  then have 1: "\<exists>w'. report reg self w = Inr w' \<and>
           files (w_fs w') path =
             Some (replaced cd q ?header @
                   concat (map (replaced cd q) (errorlist (w_shared w))) @
                   replaced cd q ''</testsuite>'')"
    unfolding split by simp
  have 2: "\<forall>c. replaced cd q [c] = (case cd c of None \<Rightarrow> q | Some bs \<Rightarrow> bs)"
    by (simp add: replaced_def)
  have 3: "\<forall>xs c. c \<in> set xs \<longrightarrow> cd c = None \<longrightarrow>
      encode cd Strict xs = Inl UnicodeEncodeError"
    by (blast intro: encode_Strict_raises)
  from 1 2 3 show ?thesis
    by blast
qed

theorem report_replaces_unencodable_witness:
  \<open>error_report_filename (sample_plugin\<lparr>encoding := ''ascii''\<rparr>) = Some ''nosetests.xml''
   \<and> writable (w_fs sample_world) ''nosetests.xml''
   \<and> sample_registry (encoding (sample_plugin\<lparr>encoding := ''ascii''\<rparr>)) = Some ascii_codec
   \<and> ascii_codec CHR ''?'' = Some [63]
   \<and> plugin_config (sample_plugin\<lparr>encoding := ''ascii''\<rparr>) = Some sample_config
   \<and> stats (w_shared sample_world) ''errors'' = Some (PInt 0)
   \<and> stats (w_shared sample_world) ''failures'' = Some (PInt 0)
   \<and> stats (w_shared sample_world) ''passes'' = Some (PInt 2)
   \<and> stats (w_shared sample_world) ''skipped'' = Some (PInt 0)
   \<and> CHR 0xE9 \<in> set [CHR ''<'', CHR 0xE9, CHR ''/'', CHR ''>'']
   \<and> ascii_codec (CHR 0xE9) = None
   \<and> encode ascii_codec Strict [CHR ''<'', CHR 0xE9, CHR ''/'', CHR ''>''] = Inl UnicodeEncodeError
   \<and> (\<exists>w'. report sample_registry (sample_plugin\<lparr>encoding := ''ascii''\<rparr>) sample_world = Inr w' \<and>
           files (w_fs w') ''nosetests.xml'' =
             Some (replaced ascii_codec [63]
                     (''<?xml version="1.0" encoding="ascii"?>'' @
                      ''<testsuite name="nosetests" tests="2" errors="0" failures="0" skip="0">'') @
                   concat [replaced ascii_codec [63] ''<testcase/>'', [60, 63, 47, 62]] @
                   replaced ascii_codec [63] ''</testsuite>''))\<close>
proof -
  have m: "CHR 0xE9 \<in> set [CHR ''<'', CHR 0xE9, CHR ''/'', CHR ''>'']"
    by simp
  have a: "ascii_codec (CHR 0xE9) = None"
    by (simp add: ascii_codec_def)
  have c: "replaced ascii_codec [63] [CHR ''<'', CHR 0xE9, CHR ''/'', CHR ''>''] = [60, 63, 47, 62]"
    by (simp add: replaced_def ascii_codec_def)
  have n: "show_int 0 = ''0''" "show_int 2 = ''2''"
    by (simp_all add: show_int_def show_nat.simps digit_char_def)
  note r = report_replaces_unencodable [where reg = sample_registry,
      OF sample_ascii_conditions(1) sample_report_conditions(2)
      sample_ascii_conditions(2-4) sample_report_conditions(6-9)]
  from r m a
  have b: "encode ascii_codec Strict [CHR ''<'', CHR 0xE9, CHR ''/'', CHR ''>''] =
      Inl UnicodeEncodeError"
    by blast
  from r
  have "\<exists>w'. report sample_registry (sample_plugin\<lparr>encoding := ''ascii''\<rparr>) sample_world = Inr w' \<and>
           files (w_fs w') ''nosetests.xml'' =
             Some (replaced ascii_codec [63]
                     (''<?xml version=\"1.0\" encoding=\"ascii\"?>'' @
                      ''<testsuite name=\"nosetests\" tests=\"2\" errors=\"0\" failures=\"0\" skip=\"0\">'') @
                   concat [replaced ascii_codec [63] ''<testcase/>'', [60, 63, 47, 62]] @
                   replaced ascii_codec [63] ''</testsuite>'')"
    unfolding c [symmetric] by (simp add: n) (simp add: sample_world_def sample_plugin_def)
  with sample_ascii_conditions sample_report_conditions m a b show ?thesis
    by blast
qed

text \<open>
  C9, as amended. \<open>report\<close> reads the four counters and leaves each at its value, and it
  leaves the list of fragments as it is; it writes two further entries into the shared
  dictionary, the encoding name under \<open>encoding\<close> and the sum of the counters under
  \<open>total\<close>.
\<close>

theorem report_adds_two_entries:
  assumes "error_report_filename self = Some path" and "writable (w_fs w) path"
    and "reg (encoding self) = Some cd" and "cd CHR ''?'' = Some q"
    and "plugin_config self = Some cfg"
    and "stats (w_shared w) ''errors'' = Some (PInt e)"
    and "stats (w_shared w) ''failures'' = Some (PInt f)"
    and "stats (w_shared w) ''passes'' = Some (PInt p)"
    and "stats (w_shared w) ''skipped'' = Some (PInt k)"
  shows "\<exists>w'. report reg self w = Inr w' \<and>
           stats (w_shared w') =
             (stats (w_shared w))(''encoding'' \<mapsto> PStr (encoding self),
                                  ''total'' \<mapsto> PInt (e + f + p + k)) \<and>
           stats (w_shared w') ''errors'' = Some (PInt e) \<and>
           stats (w_shared w') ''failures'' = Some (PInt f) \<and>
           stats (w_shared w') ''passes'' = Some (PInt p) \<and>
           stats (w_shared w') ''skipped'' = Some (PInt k) \<and>
           errorlist (w_shared w') = errorlist (w_shared w)"
  using assms(6-9) by (simp add: report_result [where reg = reg, OF assms])

theorem report_adds_two_entries_witness:
  "error_report_filename sample_plugin = Some ''nosetests.xml''
   \<and> writable (w_fs sample_world) ''nosetests.xml''
   \<and> sample_registry (encoding sample_plugin) = Some utf8_codec
   \<and> utf8_codec CHR ''?'' = Some [63]
   \<and> plugin_config sample_plugin = Some sample_config
   \<and> stats (w_shared sample_world) ''errors'' = Some (PInt 0)
   \<and> stats (w_shared sample_world) ''failures'' = Some (PInt 0)
   \<and> stats (w_shared sample_world) ''passes'' = Some (PInt 2)
   \<and> stats (w_shared sample_world) ''skipped'' = Some (PInt 0)
   \<and> (\<exists>w'. report sample_registry sample_plugin sample_world = Inr w' \<and>
           stats (w_shared w') =
             (stats (w_shared sample_world))(''encoding'' \<mapsto> PStr ''UTF-8'', ''total'' \<mapsto> PInt 2) \<and>
           stats (w_shared w') ''passes'' = Some (PInt 2) \<and>
           errorlist (w_shared w') = errorlist (w_shared sample_world))"
proof -
  from report_adds_two_entries [where reg = sample_registry, OF sample_report_conditions]
  have "\<exists>w'. report sample_registry sample_plugin sample_world = Inr w' \<and>
           stats (w_shared w') =
             (stats (w_shared sample_world))(''encoding'' \<mapsto> PStr ''UTF-8'', ''total'' \<mapsto> PInt 2) \<and>
           stats (w_shared w') ''passes'' = Some (PInt 2) \<and>
           errorlist (w_shared w') = errorlist (w_shared sample_world)"
    by (auto simp add: sample_plugin_def)
  with sample_report_conditions show ?thesis
    by blast
qed

text \<open>
  On the sample state the shared dictionary has no entry \<open>total\<close> before \<open>report\<close> and the
  entry \<open>total = 2\<close> after it: \<open>report\<close> does write to the dictionary, which then holds
  more than the four counters.
\<close>

theorem report_writes_stats_counterexample:
  "stats (w_shared sample_world) ''total'' = None
   \<and> stats_after_report sample_registry sample_plugin sample_world ''total'' = Some (PInt 2)"
  by (simp add: stats_after_report_def report_result [where reg = sample_registry, OF sample_report_conditions])
     (simp add: sample_world_def initial_stats_values)

text \<open>
  C10. The opening tag of the root element that \<open>report\<close> writes is \<open>testsuite\<close> with the
  attribute \<open>name="nosetests"\<close>, for every file name, verbosity and encoding.
\<close>

theorem report_testsuite_name:
  assumes "error_report_filename self = Some path" and "writable (w_fs w) path"
    and "reg (encoding self) = Some cd" and "cd CHR ''?'' = Some q"
    and "plugin_config self = Some cfg"
    and "stats (w_shared w) ''errors'' = Some (PInt e)"
    and "stats (w_shared w) ''failures'' = Some (PInt f)"
    and "stats (w_shared w) ''passes'' = Some (PInt p)"
    and "stats (w_shared w) ''skipped'' = Some (PInt k)"
  shows \<open>\<exists>w' rest. report reg self w = Inr w' \<and>
           files (w_fs w') path =
             Some (replaced cd q
               (''<?xml version="1.0" encoding="'' @ encoding self @ ''"?>'' @
                ''<testsuite name="nosetests" '' @ rest))\<close>
proof -
  let ?rest = "''tests=\"'' @ show_int (e + f + p + k) @
                ''\" errors=\"'' @ show_int e @ ''\" failures=\"'' @ show_int f @
                ''\" skip=\"'' @ show_int k @ ''\">'' @
                concat (errorlist (w_shared w)) @ ''</testsuite>''"
  have "report reg self w = Inr w' \<Longrightarrow> files (w_fs w') path =
             Some (replaced cd q
               (''<?xml version=\"1.0\" encoding=\"'' @ encoding self @ ''\"?>'' @
                ''<testsuite name=\"nosetests\" '' @ ?rest))" for w'
    using report_result [where reg = reg, OF assms] by auto
  with report_result [where reg = reg, OF assms] show ?thesis
    by blast
qed

theorem report_testsuite_name_witness:
  \<open>error_report_filename sample_plugin = Some ''nosetests.xml''
   \<and> writable (w_fs sample_world) ''nosetests.xml''
   \<and> sample_registry (encoding sample_plugin) = Some utf8_codec
   \<and> utf8_codec CHR ''?'' = Some [63]
   \<and> plugin_config sample_plugin = Some sample_config
   \<and> stats (w_shared sample_world) ''errors'' = Some (PInt 0)
   \<and> stats (w_shared sample_world) ''failures'' = Some (PInt 0)
   \<and> stats (w_shared sample_world) ''passes'' = Some (PInt 2)
   \<and> stats (w_shared sample_world) ''skipped'' = Some (PInt 0)
   \<and> (\<exists>w' rest. report sample_registry sample_plugin sample_world = Inr w' \<and>
           files (w_fs w') ''nosetests.xml'' =
             Some (replaced utf8_codec [63]
               (''<?xml version="1.0" encoding="'' @ encoding sample_plugin @ ''"?>'' @
                ''<testsuite name="nosetests" '' @ rest)))\<close>
  using report_testsuite_name [where reg = sample_registry, OF sample_report_conditions] sample_report_conditions
  by blast


section \<open>Properties of the configuration\<close>

text \<open>
  C5, as amended. For an enabled plugin, \<open>configure\<close> initializes the shared state once.
  When the configuration already holds the pair of proxies, \<open>configure\<close> takes them and
  changes neither the configuration nor the manager's objects. Otherwise it creates an
  empty list and a dictionary with the four counters at zero, stores the two proxies in
  the configuration and takes them; an instance configured afterwards with this
  configuration attaches to the same two objects and creates nothing. For a plugin that
  is not enabled, \<open>configure\<close> neither attaches nor creates anything.
\<close>

theorem configure_initializes_once:
  assumes "enable_plugin opts"
    and "\<not> enable_plugin off"
    and "nose_xunitmp_state published = Some (l, d)"
    and "nose_xunitmp_state unpublished = None"
  shows "configure self opts published m =
           (self\<lparr>enabled := True, plugin_config := Some published,
                  errorlist_proxy := Some l, stats_proxy := Some d,
                  error_report_filename := Some (xunitmp_file opts)\<rparr>,
            published, m)
       \<and> (case configure self opts unpublished m of (self', cfg', m') \<Rightarrow>
            errorlist_proxy self' = Some (length (lists m)) \<and>
            stats_proxy self' = Some (length (dicts m)) \<and>
            lists m' = lists m @ [[]] \<and>
            dicts m' = dicts m @
              [[''errors'' \<mapsto> PInt 0, ''failures'' \<mapsto> PInt 0, ''passes'' \<mapsto> PInt 0,
                ''skipped'' \<mapsto> PInt 0]] \<and>
            attached m' self' =
              Some \<lparr>errorlist = [],
                    stats = [''errors'' \<mapsto> PInt 0, ''failures'' \<mapsto> PInt 0,
                             ''passes'' \<mapsto> PInt 0, ''skipped'' \<mapsto> PInt 0]\<rparr> \<and>
            cfg' = unpublished\<lparr>nose_xunitmp_state :=
                                Some (length (lists m), length (dicts m))\<rparr> \<and>
            plugin_config self' = Some cfg' \<and>
            (case configure other opts cfg' m' of (other', cfg'', m'') \<Rightarrow>
               cfg'' = cfg' \<and> m'' = m' \<and>
               errorlist_proxy other' = errorlist_proxy self' \<and>
               stats_proxy other' = stats_proxy self' \<and>
               attached m'' other' = attached m' self'))
       \<and> configure self off cfg m =
           (self\<lparr>enabled := False, plugin_config := Some cfg\<rparr>, cfg, m)"
  using assms
  by (simp add: configure_def manager_list_def manager_dict_def attached_def Let_def
      initial_stats_def)

theorem configure_initializes_once_witness:
  "enable_plugin sample_options
   \<and> \<not> enable_plugin (sample_options\<lparr>enable_plugin := False\<rparr>)
   \<and> nose_xunitmp_state sample_config = Some (0, 0)
   \<and> nose_xunitmp_state (sample_config\<lparr>nose_xunitmp_state := None\<rparr>) = None
   \<and> configure sample_new_plugin sample_options sample_config sample_manager =
        (sample_plugin, sample_config, sample_manager)
   \<and> (case configure sample_new_plugin sample_options
              (sample_config\<lparr>nose_xunitmp_state := None\<rparr>) sample_manager of
         (self', cfg', m') \<Rightarrow>
            errorlist_proxy self' = Some 1 \<and> stats_proxy self' = Some 1 \<and>
            lists m' = [[], []] \<and>
            attached m' self' = Some initial_shared \<and>
            nose_xunitmp_state cfg' = Some (1, 1) \<and>
            (case configure sample_new_plugin sample_options cfg' m' of
               (other', cfg'', m'') \<Rightarrow>
                 cfg'' = cfg' \<and> m'' = m' \<and> attached m'' other' = Some initial_shared))
   \<and> configure sample_new_plugin (sample_options\<lparr>enable_plugin := False\<rparr>)
        sample_config sample_manager =
        (sample_new_plugin\<lparr>plugin_config := Some sample_config\<rparr>, sample_config,
         sample_manager)"
proof -
  have h1: "enable_plugin sample_options"
    by (simp add: sample_options_def)
  have h2: "\<not> enable_plugin (sample_options\<lparr>enable_plugin := False\<rparr>)"
    by simp
  have h3: "nose_xunitmp_state sample_config = Some (0, 0)"
    by (simp add: sample_config_def)
  have h4: "nose_xunitmp_state (sample_config\<lparr>nose_xunitmp_state := None\<rparr>) = None"
    by simp
  from configure_initializes_once [OF h1 h2 h3 h4, of sample_new_plugin sample_manager
      sample_new_plugin sample_config] h1 h2 h3 h4
  show ?thesis
    by (simp add: sample_new_plugin_def sample_plugin_def sample_options_def
        sample_manager_def initial_shared_def initial_stats_def split: prod.splits)
qed

text \<open>
  A plugin that is not enabled is configured with a configuration that holds no proxies:
  \<open>configure\<close> creates no list and no dictionary, and the configuration still holds no
  proxies afterwards.
\<close>

theorem configure_disabled_counterexample:
  "nose_xunitmp_state (sample_config\<lparr>nose_xunitmp_state := None\<rparr>) = None
   \<and> configure sample_new_plugin (sample_options\<lparr>enable_plugin := False\<rparr>)
        (sample_config\<lparr>nose_xunitmp_state := None\<rparr>) sample_manager =
        (sample_new_plugin\<lparr>plugin_config := Some (sample_config\<lparr>nose_xunitmp_state := None\<rparr>)\<rparr>,
         sample_config\<lparr>nose_xunitmp_state := None\<rparr>,
         sample_manager)
   \<and> errorlist_proxy
        (sample_new_plugin\<lparr>plugin_config := Some (sample_config\<lparr>nose_xunitmp_state := None\<rparr>)\<rparr>)
        = None"
  by (simp add: configure_def sample_new_plugin_def sample_options_def)


section \<open>Properties of handlers in several worker processes\<close>

lemma run_schedule_Nil: "run_schedule [] sys = sys"
  by (simp add: run_schedule_def)

lemma run_schedule_Cons: "run_schedule (w # ws) sys = run_schedule ws (sched_step sys w)"
  by (simp add: run_schedule_def)

lemma sched_step_single:
  "sched_step \<lparr>workers = [p], store = s\<rparr> 0 =
     \<lparr>workers = [fst (proc_step p s)], store = snd (proc_step p s)\<rparr>"
  by (simp add: sched_step_def split: prod.splits)

text \<open>The sequence of requests of a handler, run alone, is the handler.\<close>

lemma exec_incr_proc:
  "exec (incr_proc k p) s =
     (case stats_incr s k of Inl e \<Rightarrow> Raised e s | Inr s' \<Rightarrow> exec p s')"
  by (cases "stats s k"; cases "the (stats s k)")
     (simp_all add: incr_proc_def stats_incr_def stats_get_def getitem_def)

lemma exec_append_proc: "exec (append_proc fragment) s = append_fragment s fragment"
  by (cases fragment) (simp_all add: append_proc_def append_fragment_def)

lemma exec_addSuccess_proc: "exec (addSuccess_proc h self c) s = addSuccess h self c s"
  by (cases "time_taken c")
     (simp_all add: addSuccess_proc_def addSuccess_def exec_incr_proc exec_append_proc
        cong: sum.case_cong)

lemma exec_addFailure_proc: "exec (addFailure_proc h self c err) s = addFailure h self c err s"
  by (cases "time_taken c"; cases "format_exception h err (encoding self)")
     (simp_all add: addFailure_proc_def addFailure_def exec_incr_proc exec_append_proc
        cong: sum.case_cong)

lemma exec_addError_proc: "exec (addError_proc h self c err) s = addError h self c err s"
  by (cases "time_taken c"; cases "is_SkipTest h err")
     (simp_all add: addError_proc_def addError_def exec_incr_proc exec_append_proc
        cong: sum.case_cong)

text \<open>A single worker that is served until it is done runs its handler as \<open>exec\<close> does.\<close>

lemma exec_as_schedule:
  "exec p s = Returned s' \<Longrightarrow>
     \<exists>n. run_schedule (replicate n 0) \<lparr>workers = [p], store = s\<rparr> =
           \<lparr>workers = [Done], store = s'\<rparr>"
proof (induction p arbitrary: s)
  case Done
  then have "run_schedule (replicate 0 0) \<lparr>workers = [Done], store = s\<rparr> =
      \<lparr>workers = [Done], store = s'\<rparr>"
    by (simp add: run_schedule_Nil)
  then show ?case by blast
next
  case (Raise e)
  then show ?case by simp
next
  case (GetItem k f)
  from GetItem.prems obtain v where v: "stats_get s k = Inr v"
    and ex: "exec (f v) s = Returned s'"
    by (cases "stats_get s k") simp_all
  from GetItem.IH [OF _ ex] obtain n where
    "run_schedule (replicate n 0) \<lparr>workers = [f v], store = s\<rparr> =
       \<lparr>workers = [Done], store = s'\<rparr>"
    by blast
  then have "run_schedule (replicate (Suc n) 0) \<lparr>workers = [GetItem k f], store = s\<rparr> =
      \<lparr>workers = [Done], store = s'\<rparr>"
    by (simp add: run_schedule_Cons sched_step_single v)
  then show ?case by blast
next
  case (SetItem k v p)
  from SetItem.prems have "exec p (stats_set s k v) = Returned s'" by simp
  from SetItem.IH [OF this] obtain n where
    "run_schedule (replicate n 0) \<lparr>workers = [p], store = stats_set s k v\<rparr> =
       \<lparr>workers = [Done], store = s'\<rparr>"
    by blast
  then have "run_schedule (replicate (Suc n) 0) \<lparr>workers = [SetItem k v p], store = s\<rparr> =
      \<lparr>workers = [Done], store = s'\<rparr>"
    by (simp add: run_schedule_Cons sched_step_single)
  then show ?case by blast
next
  case (Append x p)
  from Append.prems have "exec p (errorlist_append s x) = Returned s'" by simp
  from Append.IH [OF this] obtain n where
    "run_schedule (replicate n 0) \<lparr>workers = [p], store = errorlist_append s x\<rparr> =
       \<lparr>workers = [Done], store = s'\<rparr>"
    by blast
  then have "run_schedule (replicate (Suc n) 0) \<lparr>workers = [Append x p], store = s\<rparr> =
      \<lparr>workers = [Done], store = s'\<rparr>"
    by (simp add: run_schedule_Cons sched_step_single)
  then show ?case by blast
qed

text \<open>
  Handlers that run one after the other and return keep the sum of the four counters equal
  to the number of fragments, starting from the state that \<open>configure\<close> creates.
\<close>

lemma counter_total_initial: "counter_total initial_shared = Some 0"
  by (simp add: counter_total_def counter_of_def initial_shared_def initial_stats_def)

lemma counter_total_incremented:
  assumes "counter_total s = Some n"
    and "k \<in> {''errors'', ''failures'', ''passes'', ''skipped''}"
    and "stats s k = Some (PInt v)"
  shows "counter_total \<lparr>errorlist = xs, stats = (stats s)(k \<mapsto> PInt (v + 1))\<rparr> = Some (n + 1)"
proof -
  from assms(1) obtain e f p q where c:
    "counter_of s ''errors'' = Some e" "counter_of s ''failures'' = Some f"
    "counter_of s ''passes'' = Some p" "counter_of s ''skipped'' = Some q"
    and n: "n = e + f + p + q"
    by (auto simp add: counter_total_def bind_eq_Some_conv)
  have i: "counter_of \<lparr>errorlist = xs, stats = (stats s)(k \<mapsto> PInt (v + 1))\<rparr> k' =
      (if k' = k then Some (v + 1) else counter_of s k')" for k'
    by (simp add: counter_of_def)
  have v: "counter_of s k = Some v"
    using assms(3) by (simp add: counter_of_def)
  from assms(2) consider "k = ''errors''" | "k = ''failures''" | "k = ''passes''"
    | "k = ''skipped''"
    by blast
  then show ?thesis
  proof cases
    case 1
    with v c show ?thesis unfolding counter_total_def i by (simp add: n)
  next
    case 2
    with v c show ?thesis unfolding counter_total_def i by (simp add: n)
  next
    case 3
    with v c show ?thesis unfolding counter_total_def i by (simp add: n)
  next
    case 4
    with v c show ?thesis unfolding counter_total_def i by (simp add: n)
  qed
qed

lemma handlers_keep_total:
  assumes "counter_total s = Some (int (length (errorlist s)))"
  shows "addSuccess h self c s = Returned s' \<Longrightarrow>
           counter_total s' = Some (int (length (errorlist s')))"
    and "addFailure h self c err s = Returned s' \<Longrightarrow>
           counter_total s' = Some (int (length (errorlist s')))"
    and "addError h self c err s = Returned s' \<Longrightarrow>
           counter_total s' = Some (int (length (errorlist s')))"
proof -
  have step: "counter_total s' = Some (int (length (errorlist s')))"
    if "k \<in> {''errors'', ''failures'', ''passes'', ''skipped''}"
      and "stats s k = Some (PInt v)"
      and "s' = \<lparr>errorlist = errorlist s @ [x], stats = (stats s)(k \<mapsto> PInt (v + 1))\<rparr>"
    for k v x
    using counter_total_incremented [OF assms that(1,2), of "errorlist s @ [x]"] that(3)
    by simp
  show "addSuccess h self c s = Returned s' \<Longrightarrow>
      counter_total s' = Some (int (length (errorlist s')))"
    using step [of "''passes''"] by (auto dest!: addSuccess_ReturnedD)
  show "addFailure h self c err s = Returned s' \<Longrightarrow>
      counter_total s' = Some (int (length (errorlist s')))"
    using step [of "''failures''"] by (auto dest!: addFailure_ReturnedD)
  show "addError h self c err s = Returned s' \<Longrightarrow>
      counter_total s' = Some (int (length (errorlist s')))"
    using step [of "''skipped''"] step [of "''errors''"] by (auto dest!: addError_ReturnedD)
qed

text \<open>
  A handler that raises after the increment leaves the counter incremented and appends
  nothing: here \<open>addSuccess\<close>, when a call made for the fragment raises, as the sample
  \<open>id_split\<close> does on the identifier \<open>gen(1)\<close>.
\<close>

lemma addSuccess_raises_after_increment:
  assumes "time_taken c = Inr taken"
    and "stats s ''passes'' = Some (PInt n)"
    and "success_fragment h self c taken = Inl e"
  shows "addSuccess h self c s = Raised e (s\<lparr>stats := (stats s)(''passes'' \<mapsto> PInt (n + 1))\<rparr>)"
  using assms by (simp add: addSuccess_def stats_incr_int append_fragment_def)

lemma sample_raises_after_increment:
  "addSuccess sample_helpers sample_plugin (sample_call\<lparr>test_id := Inr ''gen(1)''\<rparr>)
     initial_shared =
   Raised (ValueError ''need more than 1 value to unpack'')
     \<lparr>errorlist = [], stats = initial_stats(''passes'' \<mapsto> PInt 1)\<rparr>"
proof -
  have "success_fragment sample_helpers sample_plugin
      (sample_call\<lparr>test_id := Inr ''gen(1)''\<rparr>) 2 =
      Inl (ValueError ''need more than 1 value to unpack'')"
    by (simp add: success_fragment_def quoted_class_def sample_helpers_def
        sample_id_split_def Let_def)
  then show ?thesis
    by (simp add: addSuccess_def sample_call_def stats_incr_int initial_shared_def
        initial_stats_values append_fragment_def)
qed

text \<open>Two increments that are served one after the other both count.\<close>

lemma sequential_increments_count:
  "run_schedule [0, 0, 1, 1]
     \<lparr>workers = [incr_proc ''passes'' Done, incr_proc ''passes'' Done],
      store = initial_shared\<rparr>
   = \<lparr>workers = [Done, Done],
      store = \<lparr>errorlist = [], stats = initial_stats(''passes'' \<mapsto> PInt 2)\<rparr>\<rparr>"
  by (simp add: run_schedule_def sched_step_def incr_proc_def stats_get_def getitem_def
      stats_set_def initial_shared_def initial_stats_values)

text \<open>
  C2. The code does not do what the claim says. Two workers each run
  \<open>self.stats['passes'] += 1\<close> once on the state that \<open>configure\<close> creates. The manager
  serves the read of the first worker, the read of the second, then the two writes: both
  workers are done, two increments were issued, and the counter is 1.
\<close>

theorem concurrent_increments_lose_update:
  "run_schedule [0, 1, 0, 1]
     \<lparr>workers = [incr_proc ''passes'' Done, incr_proc ''passes'' Done],
      store = initial_shared\<rparr>
   = \<lparr>workers = [Done, Done],
      store = \<lparr>errorlist = [], stats = initial_stats(''passes'' \<mapsto> PInt 1)\<rparr>\<rparr>"
  by (simp add: run_schedule_def sched_step_def incr_proc_def stats_get_def getitem_def
      stats_set_def initial_shared_def initial_stats_values)

text \<open>
  C4. The code does not do what the claim says. Each handler issues one increment and one
  append, but when two workers each run \<open>addSuccess\<close>, the calls of both return and their
  requests are served in turn, both workers are done with two fragments in the list and a
  sum of the four counters of 1.
\<close>

theorem interleaved_handlers_break_total:
  assumes "time_taken c = Inr taken"
    and "success_fragment h self c taken = Inr x"
    and "time_taken c' = Inr taken'"
    and "success_fragment h' self' c' taken' = Inr x'"
  shows "run_schedule [0, 1, 0, 1, 0, 1]
     \<lparr>workers = [addSuccess_proc h self c, addSuccess_proc h' self' c'],
      store = initial_shared\<rparr>
   = \<lparr>workers = [Done, Done],
      store = \<lparr>errorlist = [x, x'], stats = initial_stats(''passes'' \<mapsto> PInt 1)\<rparr>\<rparr>
   \<and> counter_total \<lparr>errorlist = [x, x'], stats = initial_stats(''passes'' \<mapsto> PInt 1)\<rparr> =
       Some 1
   \<and> length [x, x'] = 2"
  using assms
  by (simp add: run_schedule_def sched_step_def incr_proc_def append_proc_def stats_get_def
      getitem_def stats_set_def initial_shared_def initial_stats_values addSuccess_proc_def
      errorlist_append_def counter_total_def counter_of_def)

theorem interleaved_handlers_break_total_witness:
  \<open>time_taken sample_call = Inr 2
   \<and> success_fragment sample_helpers sample_plugin sample_call 2 =
       Inr (''<testcase classname="suite.Case" name="test_a" time="2.000" '' @
            ''started="11/04/26 00:00:40" ended="11/04/26 00:00:42">'' @
            ''<system-out>hi</system-out></testcase>'')
   \<and> run_schedule [0, 1, 0, 1, 0, 1]
        \<lparr>workers = [addSuccess_proc sample_helpers sample_plugin sample_call,
                    addSuccess_proc sample_helpers sample_plugin sample_call],
         store = initial_shared\<rparr>
      = \<lparr>workers = [Done, Done],
         store = \<lparr>errorlist =
                    [''<testcase classname="suite.Case" name="test_a" time="2.000" '' @
                     ''started="11/04/26 00:00:40" ended="11/04/26 00:00:42">'' @
                     ''<system-out>hi</system-out></testcase>'',
                     ''<testcase classname="suite.Case" name="test_a" time="2.000" '' @
                     ''started="11/04/26 00:00:40" ended="11/04/26 00:00:42">'' @
                     ''<system-out>hi</system-out></testcase>''],
                  stats = initial_stats(''passes'' \<mapsto> PInt 1)\<rparr>\<rparr>
   \<and> counter_total
        \<lparr>errorlist =
           [''<testcase classname="suite.Case" name="test_a" time="2.000" '' @
            ''started="11/04/26 00:00:40" ended="11/04/26 00:00:42">'' @
            ''<system-out>hi</system-out></testcase>'',
            ''<testcase classname="suite.Case" name="test_a" time="2.000" '' @
            ''started="11/04/26 00:00:40" ended="11/04/26 00:00:42">'' @
            ''<system-out>hi</system-out></testcase>''],
         stats = initial_stats(''passes'' \<mapsto> PInt 1)\<rparr> = Some 1\<close>
  using interleaved_handlers_break_total [OF sample_values(1) sample_success_fragment
      sample_values(1) sample_success_fragment]
    sample_values(1) sample_success_fragment
  by simp

end
